theory Spec2Isabelle
  imports Complex_Main
begin

section \<open>The booking schema of QuickCourt (supabase/migrations/20250924062155\_rapid\_spring.sql)\<close>

subsection \<open>Column types\<close>

text \<open>
  A \<open>UUID\<close> is held as its canonical text (lower-case, 8-4-4-4-12), a \<open>DATE\<close> as its
  ISO text (what \<open>||\<close> renders under the default DateStyle), a \<open>TIME\<close> as the number of
  microseconds since midnight. A value of type \<open>numeric\<close> is a decimal number (held as a
  rational), \<open>NaN\<close>, or an infinity. \<open>TEXT\<close> columns with a CHECK constraint stay
  strings; the constraint is a check of the statement that writes them.
\<close>

type_synonym uuid = string
type_synonym sql_text = string
type_synonym date = string
type_synonym time = nat

datatype sql_numeric = Numeric rat | NumericNaN | NumericInfinity | NumericNegInfinity

definition hhmm :: "nat \<Rightarrow> nat \<Rightarrow> time" where
  "hhmm h m = (h * 3600 + m * 60) * 1000000"

subsection \<open>Three-valued logic of a WHERE clause\<close>

text \<open>\<open>None\<close> is SQL's NULL; a row is selected when its condition is \<open>Some True\<close>.\<close>

type_synonym sql_bool = "bool option"

fun sql_and :: "sql_bool \<Rightarrow> sql_bool \<Rightarrow> sql_bool" where
  "sql_and (Some False) _ = Some False"
| "sql_and _ (Some False) = Some False"
| "sql_and (Some True) (Some True) = Some True"
| "sql_and _ _ = None"

fun sql_or :: "sql_bool \<Rightarrow> sql_bool \<Rightarrow> sql_bool" where
  "sql_or (Some True) _ = Some True"
| "sql_or _ (Some True) = Some True"
| "sql_or (Some False) (Some False) = Some False"
| "sql_or _ _ = None"

fun sql_eq :: "'a option \<Rightarrow> 'a option \<Rightarrow> sql_bool" where
  "sql_eq (Some a) (Some b) = Some (a = b)"
| "sql_eq _ _ = None"

fun sql_ne :: "'a option \<Rightarrow> 'a option \<Rightarrow> sql_bool" where
  "sql_ne (Some a) (Some b) = Some (a \<noteq> b)"
| "sql_ne _ _ = None"

fun sql_lt :: "nat option \<Rightarrow> nat option \<Rightarrow> sql_bool" where
  "sql_lt (Some a) (Some b) = Some (a < b)"
| "sql_lt _ _ = None"

fun sql_gt :: "nat option \<Rightarrow> nat option \<Rightarrow> sql_bool" where
  "sql_gt (Some a) (Some b) = Some (a > b)"
| "sql_gt _ _ = None"

definition sql_is_null :: "'a option \<Rightarrow> sql_bool" where
  "sql_is_null x = Some (x = None)"

definition sql_in :: "'a option \<Rightarrow> 'a list \<Rightarrow> sql_bool" where
  "sql_in x vs = (case x of None \<Rightarrow> None | Some a \<Rightarrow> Some (a \<in> set vs))"

subsection \<open>Table \<open>bookings\<close>\<close>

text \<open>
  The columns the functions, triggers and policies below read or write. All of them
  are NOT NULL, so a stored row holds plain values. The remaining columns
  (\<open>time_slot_id\<close>, \<open>payment_method\<close>, the notes, the timestamps) are read by none of them.
\<close>

record booking =
  b_id :: uuid
  b_facility_id :: uuid
  b_customer_id :: uuid
  b_booking_date :: date
  b_start_time :: time
  b_end_time :: time
  b_total_hours :: sql_numeric
  b_total_amount :: sql_numeric
  b_status :: sql_text
  b_payment_status :: sql_text

subsection \<open>Function \<open>check_booking_conflicts\<close>\<close>

text \<open>
  The last conjunct of the WHERE clause: the overlap condition between a stored row's
  interval and the parameters \<open>p_start_time\<close>, \<open>p_end_time\<close>.
\<close>

definition overlap_condition :: "time \<Rightarrow> time \<Rightarrow> time option \<Rightarrow> time option \<Rightarrow> sql_bool" where
  "overlap_condition start_time end_time p_start_time p_end_time =
     sql_or
       (sql_and (sql_lt (Some start_time) p_end_time) (sql_gt (Some end_time) p_start_time))
       (sql_and (sql_lt p_start_time (Some end_time)) (sql_gt p_end_time (Some start_time)))"

definition conflict_where ::
  "uuid option \<Rightarrow> date option \<Rightarrow> time option \<Rightarrow> time option \<Rightarrow> uuid option \<Rightarrow> booking \<Rightarrow> sql_bool" where
  "conflict_where p_facility_id p_booking_date p_start_time p_end_time p_exclude_booking_id r =
     sql_and (sql_eq (Some (b_facility_id r)) p_facility_id)
    (sql_and (sql_eq (Some (b_booking_date r)) p_booking_date)
    (sql_and (sql_in (Some (b_status r)) [''pending'', ''approved''])
    (sql_and (sql_or (sql_is_null p_exclude_booking_id)
                     (sql_ne (Some (b_id r)) p_exclude_booking_id))
             (overlap_condition (b_start_time r) (b_end_time r) p_start_time p_end_time))))"

text \<open>
  \<open>RETURN EXISTS (SELECT 1 FROM bookings WHERE ...)\<close>. The first argument is the relation
  the SELECT ranges over: the table, or, for a session under row-level security, the
  rows of it that session may see. Every parameter may be NULL, the exclusion defaults
  to NULL.
\<close>

definition check_booking_conflicts ::
  "booking list \<Rightarrow> uuid option \<Rightarrow> date option \<Rightarrow> time option \<Rightarrow> time option \<Rightarrow> uuid option \<Rightarrow> bool" where
  "check_booking_conflicts bookings p_facility_id p_booking_date p_start_time p_end_time
       p_exclude_booking_id =
     list_ex (\<lambda>r. conflict_where p_facility_id p_booking_date p_start_time p_end_time
                     p_exclude_booking_id r = Some True) bookings"

subsection \<open>The other tables, the session and the errors of a statement\<close>

record facility =
  f_id :: uuid
  f_owner_id :: sql_text
  f_status :: sql_text

record notification =
  n_booking_id :: uuid
  n_user_id :: uuid
  n_notification_type :: sql_text
  n_title :: sql_text
  n_message :: sql_text
  n_is_read :: bool

text \<open>Of table \<open>users\<close> only the primary keys matter here (foreign keys point at them).\<close>

record database =
  users :: "uuid list"
  facilities :: "facility list"
  bookings :: "booking list"
  booking_notifications :: "notification list"

text \<open>
  What the row-level policies read: \<open>auth.uid()\<close> and \<open>auth.role()\<close> (either may be NULL),
  and whether the role is exempt from row-level security (superuser, table owner,
  BYPASSRLS), as the migration's own sample INSERTs are.
\<close>

record session =
  bypass_rls :: bool
  auth_uid :: "uuid option"
  auth_role :: "sql_text option"

datatype sql_error =
    RlsViolation
  | CheckViolation
  | NotNullViolation
  | UniqueViolation
  | ForeignKeyViolation
  | InvalidTextRepresentation
  | NumericValueOutOfRange

subsection \<open>Values written to DECIMAL(p,s) columns, text of a TIME, text to UUID\<close>

text \<open>
  Coercion to DECIMAL(p,s) rounds a number to \<open>s\<close> places, half away from zero, and
  raises when the result needs more than \<open>p - s\<close> digits before the point; \<open>NaN\<close> passes
  as it is, an infinity raises.
\<close>

definition round_half_away :: "rat \<Rightarrow> int" where
  "round_half_away x = (if x < 0 then - \<lfloor>- x + 1 / 2\<rfloor> else \<lfloor>x + 1 / 2\<rfloor>)"

fun to_decimal :: "nat \<Rightarrow> nat \<Rightarrow> sql_numeric \<Rightarrow> sql_error + sql_numeric" where
  "to_decimal p s (Numeric x) =
     (let r = of_int (round_half_away (x * 10 ^ s)) / 10 ^ s
      in if \<bar>r\<bar> \<ge> 10 ^ (p - s) then Inl NumericValueOutOfRange else Inr (Numeric r))"
| "to_decimal p s NumericNaN = Inr NumericNaN"
| "to_decimal p s _ = Inl NumericValueOutOfRange"

definition digit_char :: "nat \<Rightarrow> char" where
  "digit_char n = ''0123456789'' ! (n mod 10)"

definition two_digits :: "nat \<Rightarrow> string" where
  "two_digits n = [digit_char (n div 10), digit_char n]"

definition time_out :: "time \<Rightarrow> string" where
  "time_out t =
     (let s = t div 1000000; us = t mod 1000000;
          frac = rev (dropWhile (\<lambda>c. c = CHR ''0'')
                   (rev (map (\<lambda>k. digit_char (us div 10 ^ k)) [5, 4, 3, 2, 1, 0])))
      in two_digits (s div 3600) @ '':'' @ two_digits (s div 60 mod 60) @ '':''
         @ two_digits (s mod 60) @ (if us = 0 then [] else ''.'' @ frac))"

text \<open>
  \<open>owner_id::UUID\<close>, as PostgreSQL reads a uuid from text: an optional opening brace;
  sixteen bytes of two hexadecimal digits each, in either case, where a hyphen may
  follow the second, the fourth, and so on to the fourteenth byte; the closing brace
  when there was an opening one; and nothing after that. Any other text raises. The
  value is held in its canonical spelling, lower case and 8-4-4-4-12.
\<close>

definition is_hex :: "char \<Rightarrow> bool" where
  "is_hex c = (c \<in> set ''0123456789abcdefABCDEF'')"

definition to_lower :: "char \<Rightarrow> char" where
  "to_lower c = (case map_of (zip ''ABCDEF'' ''abcdef'') c of Some d \<Rightarrow> d | None \<Rightarrow> c)"

text \<open>
  The loop over the bytes: the first argument says, byte by byte, whether a hyphen may
  follow; the result is the digits read, in lower case, and the text left over.
\<close>

fun uuid_bytes :: "bool list \<Rightarrow> string \<Rightarrow> (string \<times> string) option" where
  "uuid_bytes [] src = Some ([], src)"
| "uuid_bytes (h # hs) (a # b # src) =
     (if is_hex a \<and> is_hex b then
        (case uuid_bytes hs
                (case src of [] \<Rightarrow> src
                 | c # rest \<Rightarrow> if h \<and> c = CHR ''-'' then rest else src) of
           None \<Rightarrow> None
         | Some (ds, rest) \<Rightarrow> Some (to_lower a # to_lower b # ds, rest))
      else None)"
| "uuid_bytes (h # hs) src = None"

definition hyphen_may_follow :: "bool list" where
  "hyphen_may_follow =
     [False, True, False, True, False, True, False, True,
      False, True, False, True, False, True, False, False]"

definition uuid_out :: "string \<Rightarrow> uuid" where
  "uuid_out ds =
     take 8 ds @ ''-'' @ take 4 (drop 8 ds) @ ''-'' @ take 4 (drop 12 ds) @ ''-''
       @ take 4 (drop 16 ds) @ ''-'' @ drop 20 ds"

definition uuid_in :: "sql_text \<Rightarrow> sql_error + uuid" where
  "uuid_in s =
     (let braces = (take 1 s = ''{'');
          src = (if braces then drop 1 s else s)
      in case uuid_bytes hyphen_may_follow src of
           None \<Rightarrow> Inl InvalidTextRepresentation
         | Some (ds, rest) \<Rightarrow>
             if rest = (if braces then ''}'' else [])
             then Inr (uuid_out ds) else Inl InvalidTextRepresentation)"

subsection \<open>Function \<open>calculate_booking_duration\<close>\<close>

text \<open>
  \<open>RETURN EXTRACT(EPOCH FROM (p_end_time - p_start_time)) / 3600.0\<close>, as PostgreSQL 14 and
  later compute it. The difference of two TIME values is an INTERVAL, a signed number
  of microseconds; \<open>EXTRACT(EPOCH ...)\<close> reads it in seconds, as a numeric with six
  decimal places. A NULL parameter makes the result NULL.

  The quotient of two numerics is the exact quotient rounded, half away from zero, to
  a number of decimal places that PostgreSQL chooses from the operands: it looks at the
  first non-zero digit of each in base 10000 and at that digit's weight (the power of
  10000 it counts), estimates the weight of the quotient, and takes the scale that
  gives sixteen significant digits at that weight, but no less than the places either
  operand shows. The type modifier of \<open>RETURNS DECIMAL(4,2)\<close> is discarded by CREATE
  FUNCTION, so no further rounding to two places happens in the function.
\<close>

definition time_minus :: "time \<Rightarrow> time \<Rightarrow> int" where
  "time_minus a b = int a - int b"

definition extract_epoch :: "int \<Rightarrow> rat" where
  "extract_epoch iv = of_int iv / 1000000"

text \<open>The digits of a natural number in base 10000, the most significant first.\<close>

fun nbase_digits :: "nat \<Rightarrow> nat list" where
  "nbase_digits n =
     (if n < 10000 then [n] else nbase_digits (n div 10000) @ [n mod 10000])"

declare nbase_digits.simps [simp del]

text \<open>
  Weight and first digit of the seconds of an interval of \<open>iv\<close> microseconds: the
  seconds are \<open>(|iv| * 100) / 10000\<^sup>2\<close>, so the weight is the number of base-10000
  digits of \<open>|iv| * 100\<close> less three. Zero has weight 0 and first digit 0.
\<close>

definition epoch_weight :: "int \<Rightarrow> int" where
  "epoch_weight iv =
     (if iv = 0 then 0 else int (length (nbase_digits (nat \<bar>iv\<bar> * 100))) - 3)"

definition epoch_first_digit :: "int \<Rightarrow> nat" where
  "epoch_first_digit iv =
     (if iv = 0 then 0
      else case nbase_digits (nat \<bar>iv\<bar> * 100) of [] \<Rightarrow> 0 | d # ds \<Rightarrow> d)"

text \<open>
  The result scale of a division, from weight, first digit and display scale of the
  dividend and of the divisor.
\<close>

definition select_div_scale :: "int \<Rightarrow> nat \<Rightarrow> nat \<Rightarrow> int \<Rightarrow> nat \<Rightarrow> nat \<Rightarrow> nat" where
  "select_div_scale weight1 firstdigit1 dscale1 weight2 firstdigit2 dscale2 =
     (let qweight = weight1 - weight2 - (if firstdigit1 \<le> firstdigit2 then 1 else 0);
          rscale = 16 - qweight * 4
      in nat (min 1000 (max 0 (max (int dscale2) (max (int dscale1) rscale)))))"

definition numeric_div :: "rat \<Rightarrow> rat \<Rightarrow> nat \<Rightarrow> rat" where
  "numeric_div x y rscale = of_int (round_half_away (x / y * 10 ^ rscale)) / 10 ^ rscale"

text \<open>The divisor \<open>3600.0\<close> has the one base-10000 digit 3600, of weight 0, and one place.\<close>

fun calculate_booking_duration :: "time option \<Rightarrow> time option \<Rightarrow> rat option" where
  "calculate_booking_duration (Some p_start_time) (Some p_end_time) =
     (let iv = time_minus p_end_time p_start_time
      in Some (numeric_div (extract_epoch iv) 3600
                 (select_div_scale (epoch_weight iv) (epoch_first_digit iv) 6 0 3600 1)))"
| "calculate_booking_duration _ _ = None"

text \<open>A TIME lies between 00:00:00 and 24:00:00.\<close>

definition valid_time :: "time \<Rightarrow> bool" where
  "valid_time t = (t \<le> 86400000000)"

subsection \<open>Row-level policies\<close>

text \<open>
  Policies of one command are combined with OR. \<open>auth.uid()::text = customer_id::text\<close>
  is NULL, hence not satisfied, for a session without a user.
\<close>

definition service_role :: "session \<Rightarrow> bool" where
  "service_role sess = (auth_role sess = Some ''service_role'')"

definition facility_select_policy :: "session \<Rightarrow> facility \<Rightarrow> bool" where
  "facility_select_policy sess f =
     (bypass_rls sess \<or> f_status f = ''active''
      \<or> auth_uid sess = Some (f_owner_id f) \<or> service_role sess)"

definition booking_insert_policy :: "session \<Rightarrow> booking \<Rightarrow> bool" where
  "booking_insert_policy sess r =
     (bypass_rls sess \<or> auth_uid sess = Some (b_customer_id r) \<or> service_role sess)"

definition booking_update_policy :: "session \<Rightarrow> database \<Rightarrow> booking \<Rightarrow> bool" where
  "booking_update_policy sess db r =
     (bypass_rls sess
      \<or> auth_uid sess = Some (b_customer_id r)
      \<or> list_ex (\<lambda>f. f_id f = b_facility_id r \<and> auth_uid sess = Some (f_owner_id f))
           (filter (facility_select_policy sess) (facilities db))
      \<or> service_role sess)"

text \<open>
  The SELECT policies of \<open>bookings\<close>: a customer sees the bookings made in its name, a
  facility's owner those of the facility, the service role all of them.
\<close>

definition booking_select_policy :: "session \<Rightarrow> database \<Rightarrow> booking \<Rightarrow> bool" where
  "booking_select_policy sess db r =
     (bypass_rls sess
      \<or> auth_uid sess = Some (b_customer_id r)
      \<or> list_ex (\<lambda>f. f_id f = b_facility_id r \<and> auth_uid sess = Some (f_owner_id f))
           (filter (facility_select_policy sess) (facilities db))
      \<or> service_role sess)"

text \<open>
  \<open>check_booking_conflicts\<close> called by a session. The function is not declared SECURITY
  DEFINER, so its SELECT runs with the caller's rights and ranges over the rows of
  \<open>bookings\<close> that the caller's SELECT policies show.
\<close>

definition call_check_booking_conflicts ::
  "session \<Rightarrow> database \<Rightarrow> uuid option \<Rightarrow> date option \<Rightarrow> time option \<Rightarrow> time option
     \<Rightarrow> uuid option \<Rightarrow> bool" where
  "call_check_booking_conflicts sess db p_facility_id p_booking_date p_start_time p_end_time
       p_exclude_booking_id =
     check_booking_conflicts (filter (booking_select_policy sess db) (bookings db))
       p_facility_id p_booking_date p_start_time p_end_time p_exclude_booking_id"

subsection \<open>Function \<open>create_booking_notification\<close>\<close>

text \<open>
  One INSERT into \<open>booking_notifications\<close>: its columns are NOT NULL, the type is
  checked against the list of the CHECK constraint, both references must exist. The
  INSERT policy of the table is \<open>WITH CHECK (TRUE)\<close>. \<open>is_read\<close> takes its default.
\<close>

definition notification_types :: "sql_text list" where
  "notification_types =
     [''booking_confirmation'', ''booking_reminder'', ''booking_cancellation'',
      ''facility_update'', ''maintenance_alert'', ''review_received'', ''new_booking'',
      ''status_update'']"

fun create_booking_notification ::
  "uuid option \<Rightarrow> uuid option \<Rightarrow> sql_text option \<Rightarrow> sql_text option \<Rightarrow> sql_text option
     \<Rightarrow> database \<Rightarrow> sql_error + database" where
  "create_booking_notification (Some p_booking_id) (Some p_user_id) (Some p_notification_type)
       (Some p_title) (Some p_message) db =
     (if p_notification_type \<notin> set notification_types then Inl CheckViolation
      else if p_booking_id \<notin> set (map b_id (bookings db)) then Inl ForeignKeyViolation
      else if p_user_id \<notin> set (users db) then Inl ForeignKeyViolation
      else Inr (db\<lparr>booking_notifications := booking_notifications db @
             [\<lparr>n_booking_id = p_booking_id, n_user_id = p_user_id,
               n_notification_type = p_notification_type, n_title = p_title,
               n_message = p_message, n_is_read = False\<rparr>]\<rparr>))"
| "create_booking_notification _ _ _ _ _ db = Inl NotNullViolation"

subsection \<open>Triggers on \<open>bookings\<close>\<close>

text \<open>
  \<open>notify_owner_on_booking\<close>, AFTER INSERT FOR EACH ROW. The function runs with the rights
  of the inserting session, so its SELECT sees the facilities that session may see;
  when it finds none, \<open>owner_id\<close> stays NULL.
\<close>

definition notify_owner_on_booking :: "session \<Rightarrow> booking \<Rightarrow> database \<Rightarrow> sql_error + database" where
  "notify_owner_on_booking sess NEW db =
     (let owner_id = map_option f_owner_id
            (find (\<lambda>f. f_id f = b_facility_id NEW)
               (filter (facility_select_policy sess) (facilities db)))
      in case (case owner_id of None \<Rightarrow> Inr None
                | Some t \<Rightarrow> (case uuid_in t of Inl e \<Rightarrow> Inl e | Inr u \<Rightarrow> Inr (Some u))) of
           Inl e \<Rightarrow> Inl e
         | Inr owner_uuid \<Rightarrow>
             create_booking_notification (Some (b_id NEW)) owner_uuid (Some ''new_booking'')
               (Some ''New Booking Request'')
               (Some (''You have a new booking request for '' @ b_booking_date NEW
                      @ '' from '' @ time_out (b_start_time NEW)
                      @ '' to '' @ time_out (b_end_time NEW)))
               db)"

text \<open>\<open>notify_customer_on_status_change\<close>, AFTER UPDATE FOR EACH ROW.\<close>

definition notify_customer_on_status_change ::
  "booking \<Rightarrow> booking \<Rightarrow> database \<Rightarrow> sql_error + database" where
  "notify_customer_on_status_change OLD NEW db =
     (if b_status OLD \<noteq> b_status NEW then
        create_booking_notification (Some (b_id NEW)) (Some (b_customer_id NEW))
          (Some ''status_update'')
          (Some (''Booking '' @ b_status NEW))
          (Some (''Your booking for '' @ b_booking_date NEW @ '' has been '' @ b_status NEW))
          db
      else Inr db)"

subsection \<open>Statements on \<open>bookings\<close>\<close>

definition booking_statuses :: "sql_text list" where
  "booking_statuses = [''pending'', ''approved'', ''denied'', ''cancelled'', ''completed'']"

definition payment_statuses :: "sql_text list" where
  "payment_statuses = [''pending'', ''paid'', ''refunded'', ''failed'']"

text \<open>
  The values of an \<open>INSERT INTO bookings\<close>. \<open>i_id\<close> is the primary key, given or drawn by
  \<open>gen_random_uuid()\<close>; a status left out (\<open>None\<close>) takes the column default.
\<close>

record booking_values =
  i_id :: uuid
  i_facility_id :: uuid
  i_customer_id :: uuid
  i_booking_date :: date
  i_start_time :: time
  i_end_time :: time
  i_total_hours :: sql_numeric
  i_total_amount :: sql_numeric
  i_status :: "sql_text option"
  i_payment_status :: "sql_text option"

text \<open>The row to store: the values given, the two decimals as coerced, the defaults filled in.\<close>

definition new_row :: "booking_values \<Rightarrow> sql_numeric \<Rightarrow> sql_numeric \<Rightarrow> booking" where
  "new_row v hours amount =
     \<lparr>b_id = i_id v, b_facility_id = i_facility_id v,
      b_customer_id = i_customer_id v, b_booking_date = i_booking_date v,
      b_start_time = i_start_time v, b_end_time = i_end_time v,
      b_total_hours = hours, b_total_amount = amount,
      b_status = (case i_status v of None \<Rightarrow> ''pending'' | Some s \<Rightarrow> s),
      b_payment_status = (case i_payment_status v of None \<Rightarrow> ''pending'' | Some s \<Rightarrow> s)\<rparr>"

text \<open>
  \<open>INSERT INTO bookings\<close>: coercion of the decimals, the INSERT policy, the CHECK
  constraints, the primary key, the foreign keys, then the AFTER INSERT trigger. An
  error anywhere, also in the trigger, leaves the database as it was.
\<close>

definition insert_booking :: "session \<Rightarrow> booking_values \<Rightarrow> database \<Rightarrow> sql_error + database" where
  "insert_booking sess v db =
     (case to_decimal 4 2 (i_total_hours v) of Inl e \<Rightarrow> Inl e | Inr hours \<Rightarrow>
     (case to_decimal 10 2 (i_total_amount v) of Inl e \<Rightarrow> Inl e | Inr amount \<Rightarrow>
     (let NEW = new_row v hours amount
      in if \<not> booking_insert_policy sess NEW then Inl RlsViolation
         else if b_status NEW \<notin> set booking_statuses then Inl CheckViolation
         else if b_payment_status NEW \<notin> set payment_statuses then Inl CheckViolation
         else if b_id NEW \<in> set (map b_id (bookings db)) then Inl UniqueViolation
         else if b_facility_id NEW \<notin> set (map f_id (facilities db)) then Inl ForeignKeyViolation
         else if b_customer_id NEW \<notin> set (users db) then Inl ForeignKeyViolation
         else notify_owner_on_booking sess NEW (db\<lparr>bookings := bookings db @ [NEW]\<rparr>))))"

text \<open>
  \<open>UPDATE bookings SET status = new_status WHERE id = booking_id\<close>. The rows the session's
  UPDATE policies hide are not touched, and no error is raised for them. The CHECK
  constraint is tested on each new row; after the statement the AFTER UPDATE trigger
  runs once for each row updated. (The BEFORE UPDATE trigger sets \<open>updated_at\<close> only.)
\<close>

fun fire_status_triggers :: "(booking \<times> booking) list \<Rightarrow> database \<Rightarrow> sql_error + database" where
  "fire_status_triggers [] db = Inr db"
| "fire_status_triggers ((OLD, NEW) # rest) db =
     (case notify_customer_on_status_change OLD NEW db of
        Inl e \<Rightarrow> Inl e
      | Inr db' \<Rightarrow> fire_status_triggers rest db')"

definition update_booking_status ::
  "session \<Rightarrow> uuid \<Rightarrow> sql_text option \<Rightarrow> database \<Rightarrow> sql_error + database" where
  "update_booking_status sess booking_id new_status db =
     (let hit = (\<lambda>r. b_id r = booking_id \<and> booking_update_policy sess db r);
          olds = filter hit (bookings db)
      in if olds = [] then Inr db
         else case new_status of
           None \<Rightarrow> Inl NotNullViolation
         | Some s \<Rightarrow>
             if s \<notin> set booking_statuses then Inl CheckViolation
             else fire_status_triggers (map (\<lambda>r. (r, r\<lparr>b_status := s\<rparr>)) olds)
                    (db\<lparr>bookings := map (\<lambda>r. if hit r then r\<lparr>b_status := s\<rparr> else r)
                                       (bookings db)\<rparr>))"


subsection \<open>Sequences of statements and the no-overlap invariant\<close>

datatype operation =
    CreateBooking session booking_values
  | SetBookingStatus session uuid "sql_text option"

fun apply_operation :: "operation \<Rightarrow> database \<Rightarrow> sql_error + database" where
  "apply_operation (CreateBooking sess v) db = insert_booking sess v db"
| "apply_operation (SetBookingStatus sess booking_id new_status) db =
     update_booking_status sess booking_id new_status db"

text \<open>A sequence of operations, each of which must succeed.\<close>

fun run :: "operation list \<Rightarrow> database \<Rightarrow> sql_error + database" where
  "run [] db = Inr db"
| "run (x # xs) db = (case apply_operation x db of Inl e \<Rightarrow> Inl e | Inr db' \<Rightarrow> run xs db')"

definition active :: "booking \<Rightarrow> bool" where
  "active r = (b_status r \<in> set [''pending'', ''approved''])"

text \<open>
  No two stored bookings (two rows, so two primary keys) of one facility and date, both
  pending or approved, overlap; two intervals overlap when \<open>start\<^sub>1 < end\<^sub>2\<close> and
  \<open>end\<^sub>1 > start\<^sub>2\<close>.
\<close>

definition no_overlap :: "booking list \<Rightarrow> bool" where
  "no_overlap tbl =
     list_all (\<lambda>a. list_all (\<lambda>b.
         b_id a \<noteq> b_id b \<and> b_facility_id a = b_facility_id b
         \<and> b_booking_date a = b_booking_date b \<and> active a \<and> active b
         \<longrightarrow> \<not> (b_start_time a < b_end_time b \<and> b_end_time a > b_start_time b)) tbl) tbl"

text \<open>
  The discipline under which the invariant is kept: a pending or approved row is
  inserted only when \<open>check_booking_conflicts\<close>, asked over the whole table, reports no
  conflict for it, and a row that is neither is set to pending or approved only when
  the check with that row excluded reports none.
\<close>

fun conflict_checked :: "database \<Rightarrow> operation \<Rightarrow> bool" where
  "conflict_checked db (CreateBooking sess v) =
     (i_status v \<in> {None, Some ''pending'', Some ''approved''} \<longrightarrow>
        \<not> check_booking_conflicts (bookings db) (Some (i_facility_id v))
            (Some (i_booking_date v)) (Some (i_start_time v)) (Some (i_end_time v)) None)"
| "conflict_checked db (SetBookingStatus sess booking_id new_status) =
     (new_status \<in> {Some ''pending'', Some ''approved''} \<longrightarrow>
        list_all (\<lambda>r. b_id r = booking_id \<and> \<not> active r \<longrightarrow>
            \<not> check_booking_conflicts (bookings db) (Some (b_facility_id r))
                (Some (b_booking_date r)) (Some (b_start_time r)) (Some (b_end_time r))
                (Some booking_id))
          (bookings db))"

fun all_conflict_checked :: "operation list \<Rightarrow> database \<Rightarrow> bool" where
  "all_conflict_checked [] db = True"
| "all_conflict_checked (x # xs) db =
     (conflict_checked db x
      \<and> (case apply_operation x db of Inl e \<Rightarrow> True | Inr db' \<Rightarrow> all_conflict_checked xs db'))"

section \<open>The API layer (server/routes.ts)\<close>

subsection \<open>JavaScript values\<close>

text \<open>
  A number is a double: a finite value (held as the rational it is; zero is \<open>+0\<close>),
  \<open>-0\<close>, an infinity or NaN. \<open>JSON.parse\<close> gives an infinity for a literal beyond the
  range of doubles, and never NaN. Only the zero test of a number is used, so every
  rational is admitted as a finite value.
\<close>

datatype jsnum = Finite rat | NegZero | PosInfinity | NegInfinity | NaN

text \<open>
  \<open>Undefined\<close> is what reading a missing property gives. A string is held as the list of
  its bytes; only its emptiness is tested. An object is the list of its own properties
  in their order; the keys of an object are distinct (\<open>JSON.parse\<close> keeps the last value
  of a key that is repeated in the text), and looking a key up takes its last entry.
\<close>

datatype jsval =
    Undefined
  | Null
  | JBool bool
  | JNum jsnum
  | JStr string
  | JObj "(string \<times> jsval) list"
  | JArr "jsval list"

text \<open>
  What \<open>!v\<close> negates: \<open>undefined\<close>, \<open>null\<close>, \<open>false\<close>, \<open>0\<close>, \<open>-0\<close>, \<open>NaN\<close> and \<open>''\<close> are
  falsy.
\<close>

fun truthy :: "jsval \<Rightarrow> bool" where
  "truthy Undefined = False"
| "truthy Null = False"
| "truthy (JBool b) = b"
| "truthy (JNum (Finite r)) = (r \<noteq> 0)"
| "truthy (JNum NegZero) = False"
| "truthy (JNum PosInfinity) = True"
| "truthy (JNum NegInfinity) = True"
| "truthy (JNum NaN) = False"
| "truthy (JStr s) = (s \<noteq> [])"
| "truthy (JObj kvs) = True"
| "truthy (JArr vs) = True"

text \<open>
  Reading property \<open>k\<close> by destructuring a value that is not nullish, or by \<open>v?.k\<close>: an
  object gives the property or \<open>undefined\<close>; \<open>v?.k\<close> on \<open>undefined\<close> or \<open>null\<close> gives
  \<open>undefined\<close>; so do strings, numbers, booleans and arrays for the keys read by the
  handler, none of which is a property of theirs.
\<close>

fun get_prop :: "jsval \<Rightarrow> string \<Rightarrow> jsval" where
  "get_prop (JObj kvs) k = (case map_of (rev kvs) k of Some v \<Rightarrow> v | None \<Rightarrow> Undefined)"
| "get_prop _ k = Undefined"

text \<open>\<open>a ?? b\<close>\<close>

definition nullish_coalesce :: "jsval \<Rightarrow> jsval \<Rightarrow> jsval" where
  "nullish_coalesce a b = (if a = Undefined \<or> a = Null then b else a)"

text \<open>\<open>String(n)\<close> for a natural number: its decimal digits.\<close>

fun string_of_nat :: "nat \<Rightarrow> string" where
  "string_of_nat n =
     (if n < 10 then [digit_char n] else string_of_nat (n div 10) @ [digit_char n])"

declare string_of_nat.simps [simp del]

text \<open>
  What \<open>res.json(v)\<close> sends, read back as a value: \<open>JSON.stringify\<close> writes \<open>null\<close> for an
  infinity and for NaN and \<open>0\<close> for \<open>-0\<close>, leaves out the properties of an object that are
  \<open>undefined\<close>, and writes \<open>null\<close> for an \<open>undefined\<close> element of an array.
\<close>

primrec json_of :: "jsval \<Rightarrow> jsval" where
  "json_of Undefined = Undefined"
| "json_of Null = Null"
| "json_of (JBool b) = JBool b"
| "json_of (JNum n) =
     (case n of Finite r \<Rightarrow> JNum (Finite r) | NegZero \<Rightarrow> JNum (Finite 0) | _ \<Rightarrow> Null)"
| "json_of (JStr s) = JStr s"
| "json_of (JObj kvs) =
     JObj (filter (\<lambda>kv. snd kv \<noteq> Undefined) (map (map_prod id json_of) kvs))"
| "json_of (JArr vs) =
     JArr (map (\<lambda>v. if v = Undefined then Null else v) (map json_of vs))"

subsection \<open>\<open>POST /api/bookings\<close>\<close>

record response =
  status_code :: nat
  json :: jsval

text \<open>
  The handler, as a function of the in-memory array \<open>bookings\<close>, the request body
  (\<open>Undefined\<close> when there is none) and the clock's \<open>new Date().toISOString()\<close>; it
  returns the array afterwards and the response.
\<close>

definition post_bookings :: "string \<Rightarrow> jsval list \<Rightarrow> jsval \<Rightarrow> jsval list \<times> response" where
  "post_bookings now bookings_arr req_body =
     (let body = (if truthy req_body then req_body else JObj []);
          userId = get_prop body ''userId'';
          facilityId = get_prop body ''facilityId'';
          courtId = get_prop body ''courtId'';
          date = get_prop body ''date'';
          timeSlot = get_prop body ''timeSlot'';
          totalPrice = get_prop body ''totalPrice''
      in if \<not> truthy userId \<or> \<not> truthy facilityId \<or> \<not> truthy courtId \<or> \<not> truthy date
            \<or> \<not> truthy (get_prop timeSlot ''start'') \<or> \<not> truthy (get_prop timeSlot ''end'')
         then (bookings_arr,
               \<lparr>status_code = 400,
                json = json_of (JObj [(''message'', JStr ''Missing required fields'')])\<rparr>)
         else
           let id = string_of_nat (length bookings_arr + 1);
               booking = JObj
                 [(''id'', JStr id),
                  (''userId'', userId),
                  (''facilityId'', facilityId),
                  (''courtId'', courtId),
                  (''date'', date),
                  (''timeSlot'', timeSlot),
                  (''status'', JStr ''confirmed''),
                  (''totalPrice'', nullish_coalesce totalPrice (JNum (Finite 0))),
                  (''paymentStatus'', JStr ''pending''),
                  (''createdAt'', JStr now)]
           in (bookings_arr @ [booking], \<lparr>status_code = 201, json = json_of booking\<rparr>))"

text \<open>The booking the handler builds when the array holds \<open>n\<close> bookings.\<close>

definition built_booking :: "string \<Rightarrow> nat \<Rightarrow> jsval \<Rightarrow> jsval" where
  "built_booking now n body = JObj
     [(''id'', JStr (string_of_nat (n + 1))),
      (''userId'', get_prop body ''userId''),
      (''facilityId'', get_prop body ''facilityId''),
      (''courtId'', get_prop body ''courtId''),
      (''date'', get_prop body ''date''),
      (''timeSlot'', get_prop body ''timeSlot''),
      (''status'', JStr ''confirmed''),
      (''totalPrice'', nullish_coalesce (get_prop body ''totalPrice'') (JNum (Finite 0))),
      (''paymentStatus'', JStr ''pending''),
      (''createdAt'', JStr now)]"

text \<open>A property is present in a body when the body is an object that has the key.\<close>

fun present :: "jsval \<Rightarrow> string \<Rightarrow> bool" where
  "present (JObj kvs) k = (k \<in> set (map fst kvs))"
| "present _ k = False"

text \<open>The falsy values.\<close>

abbreviation falsy_values :: "jsval set" where
  "falsy_values \<equiv>
     {Undefined, Null, JBool False, JNum (Finite 0), JNum NegZero, JNum NaN, JStr ''''}"

text \<open>
  The six values the handler's guard tests, and whether one of the six properties is
  absent from the body.
\<close>

definition required_fields :: "jsval \<Rightarrow> jsval list" where
  "required_fields body =
     [get_prop body ''userId'', get_prop body ''facilityId'', get_prop body ''courtId'',
      get_prop body ''date'', get_prop (get_prop body ''timeSlot'') ''start'',
      get_prop (get_prop body ''timeSlot'') ''end'']"

definition some_field_absent :: "jsval \<Rightarrow> bool" where
  "some_field_absent body =
     (\<not> present body ''userId'' \<or> \<not> present body ''facilityId''
      \<or> \<not> present body ''courtId'' \<or> \<not> present body ''date''
      \<or> \<not> present (get_prop body ''timeSlot'') ''start''
      \<or> \<not> present (get_prop body ''timeSlot'') ''end'')"

section \<open>Sample data (section 27 of the migration)\<close>

text \<open>
  The users and the first facility the migration inserts, a customer's session, the
  facility owner's session and the migration's own session, and the two sample bookings
  with primary keys and dates fixed.
\<close>

definition sample_owner :: uuid where
  "sample_owner = ''00000000-0000-0000-0000-000000000002''"

definition sample_customer :: uuid where
  "sample_customer = ''00000000-0000-0000-0000-000000000003''"

definition sample_facility :: uuid where
  "sample_facility = ''10000000-0000-0000-0000-000000000001''"

definition sample_db :: database where
  "sample_db =
     \<lparr>users = [''00000000-0000-0000-0000-000000000001'', sample_owner, sample_customer],
      facilities = [\<lparr>f_id = sample_facility, f_owner_id = sample_owner, f_status = ''active''\<rparr>],
      bookings = [],
      booking_notifications = []\<rparr>"

definition customer_session :: session where
  "customer_session =
     \<lparr>bypass_rls = False, auth_uid = Some sample_customer, auth_role = Some ''authenticated''\<rparr>"

definition owner_session :: session where
  "owner_session =
     \<lparr>bypass_rls = False, auth_uid = Some sample_owner, auth_role = Some ''authenticated''\<rparr>"

definition migration_session :: session where
  "migration_session = \<lparr>bypass_rls = True, auth_uid = None, auth_role = None\<rparr>"

definition sample_booking :: booking_values where
  "sample_booking =
     \<lparr>i_id = ''20000000-0000-0000-0000-000000000001'', i_facility_id = sample_facility,
      i_customer_id = sample_customer, i_booking_date = ''2025-09-26'',
      i_start_time = hhmm 9 0, i_end_time = hhmm 10 0,
      i_total_hours = Numeric 1, i_total_amount = Numeric 50,
      i_status = Some ''pending'', i_payment_status = Some ''pending''\<rparr>"

text \<open>The row the first sample booking is stored as.\<close>

definition sample_row :: booking where
  "sample_row =
     \<lparr>b_id = ''20000000-0000-0000-0000-000000000001'', b_facility_id = sample_facility,
      b_customer_id = sample_customer, b_booking_date = ''2025-09-26'',
      b_start_time = hhmm 9 0, b_end_time = hhmm 10 0,
      b_total_hours = Numeric 1, b_total_amount = Numeric 50,
      b_status = ''pending'', b_payment_status = ''pending''\<rparr>"

text \<open>A second booking by the same customer, half an hour into the first, statuses left out.\<close>

definition overlapping_booking :: booking_values where
  "overlapping_booking =
     sample_booking\<lparr>i_id := ''20000000-0000-0000-0000-000000000002'',
                     i_start_time := hhmm 9 30, i_end_time := hhmm 10 30,
                     i_status := None, i_payment_status := None\<rparr>"

definition overlapping_row :: booking where
  "overlapping_row =
     sample_row\<lparr>b_id := ''20000000-0000-0000-0000-000000000002'',
                 b_start_time := hhmm 9 30, b_end_time := hhmm 10 30\<rparr>"

text \<open>The notification the INSERT trigger writes for a booking of the sample facility.\<close>

definition owner_notification :: "uuid \<Rightarrow> string \<Rightarrow> notification" where
  "owner_notification booking_id message =
     \<lparr>n_booking_id = booking_id, n_user_id = sample_owner,
      n_notification_type = ''new_booking'', n_title = ''New Booking Request'',
      n_message = message, n_is_read = False\<rparr>"

text \<open>A booking inserted as approved and paid, with two hours charged for one.\<close>

definition approved_booking :: booking_values where
  "approved_booking =
     sample_booking\<lparr>i_total_hours := Numeric 2, i_status := Some ''approved'',
                     i_payment_status := Some ''paid''\<rparr>"

text \<open>
  For the API layer: a booking held in the array, a request for the same court and date
  half an hour into it, and the booking the handler builds from that request when the
  array holds one booking.
\<close>

definition stored_booking :: jsval where
  "stored_booking = JObj
     [(''id'', JStr ''1''), (''userId'', JStr ''u2''), (''facilityId'', JStr ''f1''),
      (''courtId'', JStr ''c1''), (''date'', JStr ''2025-09-26''),
      (''timeSlot'', JObj [(''start'', JStr ''09:00''), (''end'', JStr ''10:00'')]),
      (''status'', JStr ''pending''), (''totalPrice'', JNum (Finite 50)),
      (''paymentStatus'', JStr ''pending''),
      (''createdAt'', JStr ''2025-09-24T06:21:55.000Z'')]"

definition sample_request :: jsval where
  "sample_request = JObj
     [(''userId'', JStr ''u1''), (''facilityId'', JStr ''f1''), (''courtId'', JStr ''c1''),
      (''date'', JStr ''2025-09-26''),
      (''timeSlot'', JObj [(''start'', JStr ''09:30''), (''end'', JStr ''10:30'')])]"

definition created_booking :: jsval where
  "created_booking = JObj
     [(''id'', JStr ''2''), (''userId'', JStr ''u1''), (''facilityId'', JStr ''f1''),
      (''courtId'', JStr ''c1''), (''date'', JStr ''2025-09-26''),
      (''timeSlot'', JObj [(''start'', JStr ''09:30''), (''end'', JStr ''10:30'')]),
      (''status'', JStr ''confirmed''), (''totalPrice'', JNum (Finite 0)),
      (''paymentStatus'', JStr ''pending''),
      (''createdAt'', JStr ''2025-09-25T10:00:00.000Z'')]"

text \<open>A request with every required property present, the first of them empty.\<close>

definition empty_user_request :: jsval where
  "empty_user_request = JObj
     [(''userId'', JStr ''''), (''facilityId'', JStr ''f1''), (''courtId'', JStr ''c1''),
      (''date'', JStr ''2025-09-26''),
      (''timeSlot'', JObj [(''start'', JStr ''09:30''), (''end'', JStr ''10:30'')])]"

text \<open>The sample database with the given rows in \<open>bookings\<close>.\<close>

definition sample_db_with :: "booking list \<Rightarrow> database" where
  "sample_db_with rows = sample_db\<lparr>bookings := rows\<rparr>"

text \<open>A third booking, from the end of the first to 11:00, and its row.\<close>

definition touching_booking :: booking_values where
  "touching_booking =
     sample_booking\<lparr>i_id := ''20000000-0000-0000-0000-000000000003'',
                     i_start_time := hhmm 10 0, i_end_time := hhmm 11 0,
                     i_status := None, i_payment_status := None\<rparr>"

definition touching_row :: booking where
  "touching_row =
     sample_row\<lparr>b_id := ''20000000-0000-0000-0000-000000000003'',
                 b_start_time := hhmm 10 0, b_end_time := hhmm 11 0\<rparr>"

text \<open>
  A run from the sample database: the customer books 09:00 to 10:00 and then 09:30 to
  10:30.
\<close>

definition unchecked_run :: "operation list" where
  "unchecked_run =
     [CreateBooking customer_session sample_booking,
      CreateBooking customer_session overlapping_booking]"

definition unchecked_result :: database where
  "unchecked_result =
     (sample_db_with [sample_row, overlapping_row])
       \<lparr>booking_notifications :=
          [owner_notification ''20000000-0000-0000-0000-000000000001''
             ''You have a new booking request for 2025-09-26 from 09:00:00 to 10:00:00'',
           owner_notification ''20000000-0000-0000-0000-000000000002''
             ''You have a new booking request for 2025-09-26 from 09:30:00 to 10:30:00'']\<rparr>"

definition customer_notification :: "uuid \<Rightarrow> string \<Rightarrow> notification" where
  "customer_notification booking_id status =
     \<lparr>n_booking_id = booking_id, n_user_id = sample_customer,
      n_notification_type = ''status_update'', n_title = ''Booking '' @ status,
      n_message = ''Your booking for 2025-09-26 has been '' @ status, n_is_read = False\<rparr>"

text \<open>
  The second run: the customer books 09:00 to 10:00, the owner denies the booking, the
  customer books 10:00 to 11:00, and the owner sets the denied booking to approved.
\<close>

definition checked_run :: "operation list" where
  "checked_run =
     [CreateBooking customer_session sample_booking,
      SetBookingStatus owner_session ''20000000-0000-0000-0000-000000000001''
        (Some ''denied''),
      CreateBooking customer_session touching_booking,
      SetBookingStatus owner_session ''20000000-0000-0000-0000-000000000001''
        (Some ''approved'')]"

definition checked_state_1 :: database where
  "checked_state_1 =
     (sample_db_with [sample_row])
       \<lparr>booking_notifications :=
          [owner_notification ''20000000-0000-0000-0000-000000000001''
             ''You have a new booking request for 2025-09-26 from 09:00:00 to 10:00:00'']\<rparr>"

definition checked_state_2 :: database where
  "checked_state_2 =
     (sample_db_with [sample_row\<lparr>b_status := ''denied''\<rparr>])
       \<lparr>booking_notifications :=
          [owner_notification ''20000000-0000-0000-0000-000000000001''
             ''You have a new booking request for 2025-09-26 from 09:00:00 to 10:00:00'',
           customer_notification ''20000000-0000-0000-0000-000000000001'' ''denied'']\<rparr>"

definition checked_state_3 :: database where
  "checked_state_3 =
     (sample_db_with [sample_row\<lparr>b_status := ''denied''\<rparr>, touching_row])
       \<lparr>booking_notifications :=
          [owner_notification ''20000000-0000-0000-0000-000000000001''
             ''You have a new booking request for 2025-09-26 from 09:00:00 to 10:00:00'',
           customer_notification ''20000000-0000-0000-0000-000000000001'' ''denied'',
           owner_notification ''20000000-0000-0000-0000-000000000003''
             ''You have a new booking request for 2025-09-26 from 10:00:00 to 11:00:00'']\<rparr>"

definition checked_result :: database where
  "checked_result =
     (sample_db_with [sample_row\<lparr>b_status := ''approved''\<rparr>, touching_row])
       \<lparr>booking_notifications :=
          [owner_notification ''20000000-0000-0000-0000-000000000001''
             ''You have a new booking request for 2025-09-26 from 09:00:00 to 10:00:00'',
           customer_notification ''20000000-0000-0000-0000-000000000001'' ''denied'',
           owner_notification ''20000000-0000-0000-0000-000000000003''
             ''You have a new booking request for 2025-09-26 from 10:00:00 to 11:00:00'',
           customer_notification ''20000000-0000-0000-0000-000000000001'' ''approved'']\<rparr>"

text \<open>The session of another customer.\<close>

definition other_session :: session where
  "other_session =
     \<lparr>bypass_rls = False, auth_uid = Some ''00000000-0000-0000-0000-000000000004'',
      auth_role = Some ''authenticated''\<rparr>"

text \<open>
  A database that differs from the sample database with the first booking only in
  that booking's date and status.
\<close>

definition elsewhere_db :: database where
  "elsewhere_db =
     sample_db_with [sample_row\<lparr>b_booking_date := ''2025-10-03'', b_status := ''cancelled''\<rparr>]"

text \<open>The sample request with a price beyond the range of doubles, as \<open>1e400\<close> parses.\<close>

definition infinite_price_request :: jsval where
  "infinite_price_request = JObj
     [(''userId'', JStr ''u1''), (''facilityId'', JStr ''f1''), (''courtId'', JStr ''c1''),
      (''date'', JStr ''2025-09-26''),
      (''timeSlot'', JObj [(''start'', JStr ''09:30''), (''end'', JStr ''10:30'')]),
      (''totalPrice'', JNum PosInfinity)]"

section \<open>The conflict check\<close>

lemma overlap_condition_Some:
  "overlap_condition st en (Some ps) (Some pe) = Some (st < pe \<and> en > ps)"
  by (cases "st < pe"; cases "ps < en") (simp_all add: overlap_condition_def)

lemma conflict_where_Some:
  "conflict_where (Some f) (Some d) (Some s) (Some e) x r = Some True \<longleftrightarrow>
     b_facility_id r = f \<and> b_booking_date r = d
     \<and> (b_status r = ''pending'' \<or> b_status r = ''approved'')
     \<and> (\<forall>i. x = Some i \<longrightarrow> b_id r \<noteq> i)
     \<and> b_start_time r < e \<and> b_end_time r > s"
proof -
  have and_True: "\<And>p q. sql_and (Some p) (Some q) = Some (p \<and> q)"
    by (case_tac p; case_tac q) simp_all
  have excl: "sql_or (sql_is_null x) (sql_ne (Some (b_id r)) x)
                = Some (\<forall>i. x = Some i \<longrightarrow> b_id r \<noteq> i)"
    by (cases x) (simp_all add: sql_is_null_def, case_tac "b_id r = a", simp_all)
  show ?thesis
    unfolding conflict_where_def overlap_condition_Some excl
    by (simp add: and_True sql_in_def)
qed

lemma check_booking_conflicts_iff:
  "check_booking_conflicts tbl (Some f) (Some d) (Some s) (Some e) x \<longleftrightarrow>
     (\<exists>r \<in> set tbl. b_facility_id r = f \<and> b_booking_date r = d
        \<and> (b_status r = ''pending'' \<or> b_status r = ''approved'')
        \<and> (\<forall>i. x = Some i \<longrightarrow> b_id r \<noteq> i)
        \<and> b_start_time r < e \<and> b_end_time r > s)"
  unfolding check_booking_conflicts_def list_ex_iff conflict_where_Some ..

lemma call_check_booking_conflicts_iff:
  "call_check_booking_conflicts sess db (Some f) (Some d) (Some s) (Some e) x \<longleftrightarrow>
     (\<exists>r \<in> set (bookings db). booking_select_policy sess db r
        \<and> b_facility_id r = f \<and> b_booking_date r = d
        \<and> (b_status r = ''pending'' \<or> b_status r = ''approved'')
        \<and> (\<forall>i. x = Some i \<longrightarrow> b_id r \<noteq> i)
        \<and> b_start_time r < e \<and> b_end_time r > s)"
  unfolding call_check_booking_conflicts_def check_booking_conflicts_iff by auto

lemma booking_select_policy_bookings:
  "booking_select_policy sess (db\<lparr>bookings := rows\<rparr>) r = booking_select_policy sess db r"
  by (simp add: booking_select_policy_def)

lemma booking_select_policy_all:
  "bypass_rls sess \<or> service_role sess \<Longrightarrow> booking_select_policy sess db r"
  by (auto simp: booking_select_policy_def)

text \<open>
  \<^bold>\<open>C2\<close>, as the code has it. \<open>bookings\<close> is under row-level security and the function
  runs with the caller's rights. For non-NULL facility, date, start and end,
  \<open>check_booking_conflicts\<close> called by a session is true exactly when some stored
  booking that the session's SELECT policies show has the same facility and date,
  status pending or approved, an identifier other than the excluded one (when one is
  supplied), and \<open>start_time < p_end_time\<close> and \<open>end_time > p_start_time\<close>; for the
  service role and for a role exempt from row-level security that is every stored
  booking, as the claim has it. The excluded booking never counts: the check with
  exclusion \<open>X\<close> is the check without exclusion on the table without row \<open>X\<close>, and a
  booking alone in the table does not conflict with its own interval once it is
  excluded.
\<close>

theorem call_check_booking_conflicts_spec:
  "(call_check_booking_conflicts sess db (Some f) (Some d) (Some s) (Some e) x \<longleftrightarrow>
      (\<exists>r \<in> set (bookings db). booking_select_policy sess db r
         \<and> b_facility_id r = f \<and> b_booking_date r = d
         \<and> (b_status r = ''pending'' \<or> b_status r = ''approved'')
         \<and> (\<forall>i. x = Some i \<longrightarrow> b_id r \<noteq> i)
         \<and> b_start_time r < e \<and> b_end_time r > s))
   \<and> (bypass_rls sess \<or> service_role sess \<longrightarrow>
        (call_check_booking_conflicts sess db (Some f) (Some d) (Some s) (Some e) x \<longleftrightarrow>
           (\<exists>r \<in> set (bookings db). b_facility_id r = f \<and> b_booking_date r = d
              \<and> (b_status r = ''pending'' \<or> b_status r = ''approved'')
              \<and> (\<forall>i. x = Some i \<longrightarrow> b_id r \<noteq> i)
              \<and> b_start_time r < e \<and> b_end_time r > s)))
   \<and> call_check_booking_conflicts sess db (Some f) (Some d) (Some s) (Some e) (Some X)
       = call_check_booking_conflicts sess
           (db\<lparr>bookings := filter (\<lambda>r. b_id r \<noteq> X) (bookings db)\<rparr>)
           (Some f) (Some d) (Some s) (Some e) None
   \<and> \<not> call_check_booking_conflicts sess (db\<lparr>bookings := [A]\<rparr>)
         (Some (b_facility_id A)) (Some (b_booking_date A))
         (Some (b_start_time A)) (Some (b_end_time A)) (Some (b_id A))"
proof (intro conjI impI)
  show "call_check_booking_conflicts sess db (Some f) (Some d) (Some s) (Some e) x \<longleftrightarrow>
      (\<exists>r \<in> set (bookings db). booking_select_policy sess db r
         \<and> b_facility_id r = f \<and> b_booking_date r = d
         \<and> (b_status r = ''pending'' \<or> b_status r = ''approved'')
         \<and> (\<forall>i. x = Some i \<longrightarrow> b_id r \<noteq> i)
         \<and> b_start_time r < e \<and> b_end_time r > s)"
    by (rule call_check_booking_conflicts_iff)
next
  assume "bypass_rls sess \<or> service_role sess"
  then have "\<And>r. booking_select_policy sess db r"
    by (rule booking_select_policy_all)
  then show "call_check_booking_conflicts sess db (Some f) (Some d) (Some s) (Some e) x \<longleftrightarrow>
           (\<exists>r \<in> set (bookings db). b_facility_id r = f \<and> b_booking_date r = d
              \<and> (b_status r = ''pending'' \<or> b_status r = ''approved'')
              \<and> (\<forall>i. x = Some i \<longrightarrow> b_id r \<noteq> i)
              \<and> b_start_time r < e \<and> b_end_time r > s)"
    unfolding call_check_booking_conflicts_iff by simp
next
  show "call_check_booking_conflicts sess db (Some f) (Some d) (Some s) (Some e) (Some X)
       = call_check_booking_conflicts sess
           (db\<lparr>bookings := filter (\<lambda>r. b_id r \<noteq> X) (bookings db)\<rparr>)
           (Some f) (Some d) (Some s) (Some e) None"
    unfolding call_check_booking_conflicts_iff booking_select_policy_bookings by auto
next
  show "\<not> call_check_booking_conflicts sess (db\<lparr>bookings := [A]\<rparr>)
         (Some (b_facility_id A)) (Some (b_booking_date A))
         (Some (b_start_time A)) (Some (b_end_time A)) (Some (b_id A))"
    unfolding call_check_booking_conflicts_iff by simp
qed

theorem call_check_booking_conflicts_spec_witness:
  "call_check_booking_conflicts customer_session (sample_db_with [sample_row])
       (Some sample_facility) (Some ''2025-09-26'') (Some (hhmm 9 30)) (Some (hhmm 10 30)) None
   \<and> (bypass_rls migration_session \<or> service_role migration_session)
   \<and> call_check_booking_conflicts migration_session (sample_db_with [sample_row])
       (Some sample_facility) (Some ''2025-09-26'') (Some (hhmm 9 30)) (Some (hhmm 10 30)) None
   \<and> \<not> call_check_booking_conflicts customer_session (sample_db_with [sample_row])
       (Some sample_facility) (Some ''2025-09-26'') (Some (hhmm 9 30)) (Some (hhmm 10 30))
       (Some ''20000000-0000-0000-0000-000000000001'')"
proof -
  let ?db = "sample_db_with [sample_row]"
  have row: "sample_row \<in> set (bookings ?db)"
    by (simp add: sample_db_with_def)
  have seen: "booking_select_policy customer_session ?db sample_row"
    by (simp add: booking_select_policy_def customer_session_def sample_row_def)
  have fields: "b_facility_id sample_row = sample_facility"
      "b_booking_date sample_row = ''2025-09-26''"
      "b_status sample_row = ''pending''"
      "b_start_time sample_row < hhmm 10 30" "b_end_time sample_row > hhmm 9 30"
    by (simp_all add: sample_row_def hhmm_def)
  have exempt: "bypass_rls migration_session \<or> service_role migration_session"
    by (simp add: migration_session_def)
  have only: "filter (\<lambda>r. b_id r \<noteq> ''20000000-0000-0000-0000-000000000001'') (bookings ?db) = []"
    by (simp add: sample_db_with_def sample_row_def)
  note inst = call_check_booking_conflicts_spec
      [of _ ?db sample_facility "''2025-09-26''" "hhmm 9 30" "hhmm 10 30" None
          "''20000000-0000-0000-0000-000000000001''" sample_row]
  from inst [of customer_session] row seen fields
  have a: "call_check_booking_conflicts customer_session ?db
       (Some sample_facility) (Some ''2025-09-26'') (Some (hhmm 9 30)) (Some (hhmm 10 30)) None"
    by blast
  from inst [of migration_session] exempt row fields
  have b: "call_check_booking_conflicts migration_session ?db
       (Some sample_facility) (Some ''2025-09-26'') (Some (hhmm 9 30)) (Some (hhmm 10 30)) None"
    by blast
  from inst [of customer_session]
  have "call_check_booking_conflicts customer_session ?db
       (Some sample_facility) (Some ''2025-09-26'') (Some (hhmm 9 30)) (Some (hhmm 10 30))
       (Some ''20000000-0000-0000-0000-000000000001'')
     = call_check_booking_conflicts customer_session
         (?db\<lparr>bookings := filter (\<lambda>r. b_id r \<noteq> ''20000000-0000-0000-0000-000000000001'')
                               (bookings ?db)\<rparr>)
         (Some sample_facility) (Some ''2025-09-26'') (Some (hhmm 9 30)) (Some (hhmm 10 30)) None"
    by blast
  then have c: "\<not> call_check_booking_conflicts customer_session ?db
       (Some sample_facility) (Some ''2025-09-26'') (Some (hhmm 9 30)) (Some (hhmm 10 30))
       (Some ''20000000-0000-0000-0000-000000000001'')"
    unfolding only by (simp add: call_check_booking_conflicts_def check_booking_conflicts_def)
  from a exempt b c show ?thesis by blast
qed

text \<open>
  The claim as stated fails. The table holds the sample booking, pending, of the sample
  customer, from 09:00 to 10:00; it has the facility and date of the query, it is not
  excluded, and it overlaps 09:30 to 10:30. Called by another customer, whose policies
  hide that booking, the function returns false.
\<close>

theorem hidden_booking_counterexample:
  "sample_row \<in> set (bookings (sample_db_with [sample_row]))
   \<and> b_facility_id sample_row = sample_facility
   \<and> b_booking_date sample_row = ''2025-09-26''
   \<and> b_status sample_row = ''pending''
   \<and> b_start_time sample_row < hhmm 10 30 \<and> b_end_time sample_row > hhmm 9 30
   \<and> \<not> call_check_booking_conflicts other_session (sample_db_with [sample_row])
         (Some sample_facility) (Some ''2025-09-26'') (Some (hhmm 9 30)) (Some (hhmm 10 30))
         None"
  by (simp add: call_check_booking_conflicts_def check_booking_conflicts_def
        booking_select_policy_def facility_select_policy_def service_role_def
        other_session_def sample_db_with_def sample_db_def sample_row_def
        sample_owner_def sample_customer_def sample_facility_def hhmm_def)

text \<open>
  \<^bold>\<open>C7\<close>. Touching intervals do not conflict: with times \<open>a < b < c\<close> and a table that
  holds only a pending or approved booking over \<open>[a, b)\<close>, the check for \<open>[b, c)\<close> on the
  same facility and date is false, whatever the exclusion.
\<close>

theorem touching_intervals_do_not_conflict:
  assumes "a < b" and "b < c"
    and "b_status r = ''pending'' \<or> b_status r = ''approved''"
    and "b_facility_id r = f" and "b_booking_date r = d"
    and "b_start_time r = a" and "b_end_time r = b"
  shows "\<not> check_booking_conflicts [r] (Some f) (Some d) (Some b) (Some c) x"
  using assms
  unfolding check_booking_conflicts_def list_ex_iff conflict_where_Some
  by simp

theorem touching_intervals_do_not_conflict_witness:
  "hhmm 9 0 < hhmm 10 0 \<and> hhmm 10 0 < hhmm 11 0
   \<and> \<not> check_booking_conflicts [sample_row] (Some sample_facility) (Some ''2025-09-26'')
         (Some (hhmm 10 0)) (Some (hhmm 11 0)) None"
proof -
  have ab: "hhmm 9 0 < hhmm 10 0" and bc: "hhmm 10 0 < hhmm 11 0"
    by (simp_all add: hhmm_def)
  have st: "b_status sample_row = ''pending'' \<or> b_status sample_row = ''approved''"
    by (simp add: sample_row_def)
  have "\<not> check_booking_conflicts [sample_row] (Some sample_facility) (Some ''2025-09-26'')
         (Some (hhmm 10 0)) (Some (hhmm 11 0)) None"
    by (rule touching_intervals_do_not_conflict [OF ab bc st])
       (simp_all add: sample_row_def)
  with ab bc show ?thesis by simp
qed

text \<open>
  \<^bold>\<open>C8\<close>. The overlap condition is symmetric: with \<open>(s\<^sub>1, e\<^sub>1)\<close> as the stored interval and
  \<open>(s\<^sub>2, e\<^sub>2)\<close> as the parameters it gives what it gives with the roles swapped.
\<close>

theorem overlap_condition_symmetric:
  "overlap_condition s1 e1 (Some s2) (Some e2) = overlap_condition s2 e2 (Some s1) (Some e1)"
  unfolding overlap_condition_Some by auto

section \<open>The duration of a booking\<close>

lemma floor_rat_numeral: "\<lfloor>(numeral a :: rat) / numeral b\<rfloor> = numeral a div numeral b"
  using floor_divide_of_int_eq [of "numeral a" "numeral b", where ?'a = rat] by simp

lemma round_half_away_bound: "\<bar>of_int (round_half_away y) - y\<bar> \<le> 1 / 2"
proof (cases "y < 0")
  case True
  then have "round_half_away y = - \<lfloor>- y + 1 / 2\<rfloor>"
    by (simp only: round_half_away_def if_True)
  then show ?thesis
    by (simp only:) linarith
next
  case False
  then have "round_half_away y = \<lfloor>y + 1 / 2\<rfloor>"
    by (simp only: round_half_away_def if_False)
  then show ?thesis
    by (simp only:) linarith
qed

lemma numeric_div_bound: "\<bar>numeric_div x y r - x / y\<bar> \<le> 1 / (2 * 10 ^ r)"
proof -
  have "numeric_div x y r - x / y
          = (of_int (round_half_away (x / y * 10 ^ r)) - x / y * 10 ^ r) / 10 ^ r"
    by (simp add: numeric_div_def diff_divide_distrib)
  then have "\<bar>numeric_div x y r - x / y\<bar>
          = \<bar>of_int (round_half_away (x / y * 10 ^ r)) - x / y * 10 ^ r\<bar> / 10 ^ r"
    by (simp add: abs_divide)
  also have "\<dots> \<le> (1 / 2) / 10 ^ r"
    by (rule divide_right_mono [OF round_half_away_bound]) simp
  finally show ?thesis by simp
qed

lemma nbase_digits_1: "n < 10000 \<Longrightarrow> nbase_digits n = [n]"
  by (subst nbase_digits.simps) simp

lemma nbase_digits_2:
  "10000 \<le> n \<Longrightarrow> n < 100000000 \<Longrightarrow> nbase_digits n = [n div 10000, n mod 10000]"
  by (subst nbase_digits.simps) (simp add: nbase_digits_1 less_mult_imp_div_less)

lemma nbase_digits_3:
  "100000000 \<le> n \<Longrightarrow> n < 1000000000000 \<Longrightarrow>
     nbase_digits n = [n div 10000 div 10000, n div 10000 mod 10000, n mod 10000]"
  by (subst nbase_digits.simps) (simp add: nbase_digits_2 less_mult_imp_div_less)

lemma nbase_digits_4:
  "1000000000000 \<le> n \<Longrightarrow> n < 10000000000000000 \<Longrightarrow>
     nbase_digits n = [n div 10000 div 10000 div 10000, n div 10000 div 10000 mod 10000,
                       n div 10000 mod 10000, n mod 10000]"
  by (subst nbase_digits.simps) (simp add: nbase_digits_3 less_mult_imp_div_less)

text \<open>Between two times of day the division is carried to sixteen places at least.\<close>

lemma duration_scale_ge_16:
  assumes "valid_time s" and "valid_time e"
  shows "16 \<le> select_div_scale (epoch_weight (time_minus e s))
                 (epoch_first_digit (time_minus e s)) 6 0 3600 1"
proof -
  let ?iv = "time_minus e s"
  let ?m = "nat \<bar>?iv\<bar> * 100"
  from assms have m: "?m \<le> 8640000000000"
    by (simp add: valid_time_def time_minus_def)
  have q: "epoch_weight ?iv - 0 - (if epoch_first_digit ?iv \<le> 3600 then 1 else 0) \<le> 0"
  proof (cases "?iv = 0")
    case True
    then show ?thesis by (simp add: epoch_weight_def epoch_first_digit_def)
  next
    case False
    consider (a) "?m < 10000" | (b) "10000 \<le> ?m" "?m < 100000000"
      | (c) "100000000 \<le> ?m" "?m < 1000000000000"
      | (d) "1000000000000 \<le> ?m" "?m < 10000000000000000"
      using m by linarith
    then show ?thesis
    proof cases
      case a
      with False show ?thesis
        by (simp add: epoch_weight_def epoch_first_digit_def nbase_digits_1)
    next
      case b
      with False show ?thesis
        by (simp add: epoch_weight_def epoch_first_digit_def nbase_digits_2)
    next
      case c
      with False show ?thesis
        by (simp add: epoch_weight_def epoch_first_digit_def nbase_digits_3)
    next
      case d
      from m have "?m div 10000 div 10000 div 10000 \<le> 3600"
        by (simp add: div_mult2_eq [symmetric] div_le_mono [of _ 8640000000000 1000000000000, simplified])
      with False d show ?thesis
        by (simp add: epoch_weight_def epoch_first_digit_def nbase_digits_4)
    qed
  qed
  then show ?thesis
    unfolding select_div_scale_def Let_def by simp
qed

lemmas duration_defs =
  time_minus_def extract_epoch_def epoch_weight_def epoch_first_digit_def
  select_div_scale_def numeric_div_def round_half_away_def floor_rat_numeral
  nbase_digits_1 nbase_digits_2 nbase_digits_3 nbase_digits_4 hhmm_def

lemma duration_of_twenty_minutes:
  "calculate_booking_duration (Some (hhmm 9 0)) (Some (hhmm 9 20))
     = Some (33333333333333333333 / 100000000000000000000)"
  by (simp add: duration_defs)

lemma duration_of_one_hour:
  "calculate_booking_duration (Some (hhmm 9 0)) (Some (hhmm 10 0)) = Some 1"
  by (simp add: duration_defs)

text \<open>
  \<^bold>\<open>C9\<close>, as the code computes it. For every pair of times of day
  \<open>calculate_booking_duration\<close> is the elapsed time from start to end in seconds (a
  TIME counts microseconds) divided by 3600 and rounded, half away from zero, to a
  decimal of sixteen places or more; so it lies within \<open>5 \<sqdot> 10\<^sup>-\<^sup>1\<^sup>7\<close> of the quotient,
  and is negative or zero when the end does not follow the start. From 09:00 to 10:30
  it is 1.5.
\<close>

theorem calculate_booking_duration_rounds:
  assumes "valid_time s" and "valid_time e"
  shows "(\<exists>r \<ge> 16. calculate_booking_duration (Some s) (Some e)
            = Some (of_int (round_half_away
                      ((of_nat e / 1000000 - of_nat s / 1000000) / 3600 * 10 ^ r)) / 10 ^ r))
       \<and> (\<exists>d. calculate_booking_duration (Some s) (Some e) = Some d
            \<and> \<bar>d - (of_nat e / 1000000 - of_nat s / 1000000) / 3600\<bar> \<le> 1 / (2 * 10 ^ 16))
       \<and> calculate_booking_duration (Some (hhmm 9 0)) (Some (hhmm 10 30)) = Some (3 / 2)"
proof (intro conjI)
  let ?iv = "time_minus e s"
  let ?r = "select_div_scale (epoch_weight ?iv) (epoch_first_digit ?iv) 6 0 3600 1"
  let ?q = "(of_nat e / 1000000 - of_nat s / 1000000) / 3600 :: rat"
  have r: "16 \<le> ?r"
    by (rule duration_scale_ge_16 [OF assms])
  have epoch: "extract_epoch ?iv = of_nat e / 1000000 - of_nat s / 1000000"
    by (simp add: extract_epoch_def time_minus_def diff_divide_distrib)
  have val: "calculate_booking_duration (Some s) (Some e) = Some (numeric_div (extract_epoch ?iv) 3600 ?r)"
    by (simp add: Let_def)
  from val r show "\<exists>r \<ge> 16. calculate_booking_duration (Some s) (Some e)
            = Some (of_int (round_half_away (?q * 10 ^ r)) / 10 ^ r)"
    unfolding epoch numeric_div_def by blast
  have "\<bar>numeric_div (extract_epoch ?iv) 3600 ?r - ?q\<bar> \<le> 1 / (2 * 10 ^ ?r)"
    using numeric_div_bound [of "extract_epoch ?iv" 3600 ?r] unfolding epoch .
  also have "\<dots> \<le> 1 / (2 * 10 ^ 16)"
  proof -
    have "(10 :: rat) ^ 16 \<le> 10 ^ ?r"
      by (rule power_increasing [OF r]) simp
    then show ?thesis
      by (intro frac_le) simp_all
  qed
  finally show "\<exists>d. calculate_booking_duration (Some s) (Some e) = Some d
            \<and> \<bar>d - ?q\<bar> \<le> 1 / (2 * 10 ^ 16)"
    using val by blast
  show "calculate_booking_duration (Some (hhmm 9 0)) (Some (hhmm 10 30)) = Some (3 / 2)"
    by (simp add: duration_defs)
qed

theorem calculate_booking_duration_rounds_witness:
  "valid_time (hhmm 9 0) \<and> valid_time (hhmm 9 20)
   \<and> calculate_booking_duration (Some (hhmm 9 0)) (Some (hhmm 9 20))
       = Some (33333333333333333333 / 100000000000000000000)
   \<and> (\<exists>d. calculate_booking_duration (Some (hhmm 9 0)) (Some (hhmm 9 20)) = Some d
         \<and> \<bar>d - (of_nat (hhmm 9 20) / 1000000 - of_nat (hhmm 9 0) / 1000000) / 3600\<bar>
             \<le> 1 / (2 * 10 ^ 16))"
proof -
  have s: "valid_time (hhmm 9 0)" and e: "valid_time (hhmm 9 20)"
    by (simp_all add: valid_time_def hhmm_def)
  from calculate_booking_duration_rounds [OF s e] s e duration_of_twenty_minutes
  show ?thesis by blast
qed

text \<open>
  The claim as stated fails: from 09:00 to 09:20 the elapsed seconds over 3600 are one
  third, and the function returns 0.33333333333333333333.
\<close>

theorem twenty_minutes_counterexample:
  "calculate_booking_duration (Some (hhmm 9 0)) (Some (hhmm 9 20))
     = Some (33333333333333333333 / 100000000000000000000)
   \<and> (of_nat (hhmm 9 20) / 1000000 - of_nat (hhmm 9 0) / 1000000) / 3600 = (1 / 3 :: rat)
   \<and> (33333333333333333333 / 100000000000000000000 :: rat) \<noteq> 1 / 3"
  using duration_of_twenty_minutes by (simp add: hhmm_def)

section \<open>Status updates\<close>

lemma create_booking_notification_Inr:
  assumes "create_booking_notification b u t ti m db = Inr db'"
  shows "\<exists>b' u' t' ti' m'. b = Some b' \<and> u = Some u' \<and> t = Some t' \<and> ti = Some ti' \<and> m = Some m'
     \<and> db' = db\<lparr>booking_notifications := booking_notifications db @
             [\<lparr>n_booking_id = b', n_user_id = u', n_notification_type = t', n_title = ti',
               n_message = m', n_is_read = False\<rparr>]\<rparr>"
  using assms
  by (cases b; cases u; cases t; cases ti; cases m) (auto split: if_splits)

lemma filter_key_distinct:
  assumes "distinct (map f xs)" and "r \<in> set xs"
  shows "filter (\<lambda>x. f x = f r \<and> P x) xs = (if P r then [r] else [])"
  using assms
proof (induction xs)
  case Nil
  then show ?case by simp
next
  case (Cons x xs)
  show ?case
  proof (cases "x = r")
    case True
    with Cons.prems have "f r \<notin> f ` set xs" by simp
    then have "\<forall>y\<in>set xs. f y \<noteq> f r" by (metis imageI)
    then have "filter (\<lambda>x. f x = f r \<and> P x) xs = []" by (simp add: filter_empty_conv)
    with True show ?thesis by simp
  next
    case False
    with Cons.prems have "r \<in> set xs" "f x \<noteq> f r" by auto
    with Cons show ?thesis by simp
  qed
qed

lemma map_key_distinct:
  assumes "distinct (map f xs)" and "r \<in> set xs" and "P r"
  shows "map (\<lambda>x. if f x = f r \<and> P x then g x else x) xs
       = map (\<lambda>x. if f x = f r then g x else x) xs"
proof (rule map_cong[OF refl])
  fix x assume "x \<in> set xs"
  with assms have "f x = f r \<Longrightarrow> x = r" by (meson distinct_map inj_onD)
  with assms(3) show "(if f x = f r \<and> P x then g x else x) = (if f x = f r then g x else x)"
    by auto
qed

text \<open>With the primary key in force the statement reaches at most the one row of that key.\<close>

lemma update_booking_status_row:
  assumes pk: "distinct (map b_id (bookings db))"
    and r: "r \<in> set (bookings db)"
  shows "update_booking_status sess (b_id r) new_status db =
     (if \<not> booking_update_policy sess db r then Inr db
      else case new_status of
        None \<Rightarrow> Inl NotNullViolation
      | Some s \<Rightarrow>
          if s \<notin> set booking_statuses then Inl CheckViolation
          else notify_customer_on_status_change r (r\<lparr>b_status := s\<rparr>)
                 (db\<lparr>bookings := map (\<lambda>x. if b_id x = b_id r then x\<lparr>b_status := s\<rparr> else x)
                                    (bookings db)\<rparr>))"
proof -
  have f: "filter (\<lambda>x. b_id x = b_id r \<and> booking_update_policy sess db x) (bookings db)
         = (if booking_update_policy sess db r then [r] else [])"
    by (rule filter_key_distinct [OF pk r])
  show ?thesis
  proof (cases "booking_update_policy sess db r")
    case False
    then show ?thesis by (simp add: update_booking_status_def f)
  next
    case True
    have m: "\<And>s. map (\<lambda>x. if b_id x = b_id r \<and> booking_update_policy sess db x
                          then x\<lparr>b_status := s\<rparr> else x) (bookings db)
        = map (\<lambda>x. if b_id x = b_id r then x\<lparr>b_status := s\<rparr> else x) (bookings db)"
      using map_key_distinct [of b_id "bookings db" r "booking_update_policy sess db", OF pk r True]
      by simp
    from True show ?thesis
      by (simp add: update_booking_status_def f m split: option.splits sum.splits)
  qed
qed

lemma notify_customer_on_status_change_eq:
  assumes "b_id NEW \<in> set (map b_id (bookings db))" and "b_customer_id NEW \<in> set (users db)"
  shows "notify_customer_on_status_change OLD NEW db =
     Inr (if b_status OLD \<noteq> b_status NEW
          then db\<lparr>booking_notifications := booking_notifications db @
             [\<lparr>n_booking_id = b_id NEW, n_user_id = b_customer_id NEW,
               n_notification_type = ''status_update'', n_title = ''Booking '' @ b_status NEW,
               n_message = ''Your booking for '' @ b_booking_date NEW @ '' has been ''
                             @ b_status NEW,
               n_is_read = False\<rparr>]\<rparr>
          else db)"
  using assms by (simp add: notify_customer_on_status_change_def notification_types_def)

lemma notify_customer_on_status_change_Inr:
  assumes "notify_customer_on_status_change OLD NEW db = Inr db'"
  shows "db' = (if b_status OLD \<noteq> b_status NEW
          then db\<lparr>booking_notifications := booking_notifications db @
             [\<lparr>n_booking_id = b_id NEW, n_user_id = b_customer_id NEW,
               n_notification_type = ''status_update'', n_title = ''Booking '' @ b_status NEW,
               n_message = ''Your booking for '' @ b_booking_date NEW @ '' has been ''
                             @ b_status NEW,
               n_is_read = False\<rparr>]\<rparr>
          else db)"
  using assms
  by (auto simp: notify_customer_on_status_change_def split: if_splits)

lemmas sample_defs =
  sample_db_with_def sample_db_def sample_row_def sample_booking_def sample_owner_def
  sample_customer_def sample_facility_def customer_session_def owner_session_def
  migration_session_def

lemmas update_defs =
  update_booking_status_def booking_update_policy_def facility_select_policy_def
  service_role_def notify_customer_on_status_change_def booking_statuses_def
  notification_types_def

text \<open>
  \<^bold>\<open>C6\<close>. A successful status update of a stored booking that changes its status adds
  exactly one notification, of type \<open>status_update\<close>, addressed to the booking's
  customer; one that sets the status the booking already has adds none. (An update
  that the session's policies keep from the row changes nothing at all.) The primary
  key of \<open>bookings\<close> is assumed, as the table declares it.
\<close>

theorem status_change_notifies_customer_once:
  assumes pk: "distinct (map b_id (bookings db))"
    and r: "r \<in> set (bookings db)"
    and ok: "update_booking_status sess (b_id r) (Some s) db = Inr db'"
  shows "(booking_update_policy sess db r \<and> s \<noteq> b_status r \<longrightarrow>
            bookings db' = map (\<lambda>x. if b_id x = b_id r then x\<lparr>b_status := s\<rparr> else x) (bookings db)
            \<and> booking_notifications db' = booking_notifications db @
                 [\<lparr>n_booking_id = b_id r, n_user_id = b_customer_id r,
                   n_notification_type = ''status_update'', n_title = ''Booking '' @ s,
                   n_message = ''Your booking for '' @ b_booking_date r @ '' has been '' @ s,
                   n_is_read = False\<rparr>])
       \<and> (s = b_status r \<longrightarrow> booking_notifications db' = booking_notifications db)
       \<and> (\<not> booking_update_policy sess db r \<longrightarrow> db' = db)"
  using ok unfolding update_booking_status_row [OF pk r]
  by (auto split: if_splits dest!: notify_customer_on_status_change_Inr)

theorem status_change_notifies_customer_once_witness:
  "distinct (map b_id (bookings (sample_db_with [sample_row])))
   \<and> sample_row \<in> set (bookings (sample_db_with [sample_row]))
   \<and> update_booking_status owner_session (b_id sample_row) (Some ''approved'')
        (sample_db_with [sample_row])
      = Inr ((sample_db_with [sample_row\<lparr>b_status := ''approved''\<rparr>])
               \<lparr>booking_notifications :=
                  [\<lparr>n_booking_id = b_id sample_row, n_user_id = sample_customer,
                    n_notification_type = ''status_update'', n_title = ''Booking approved'',
                    n_message = ''Your booking for 2025-09-26 has been approved'',
                    n_is_read = False\<rparr>]\<rparr>)
   \<and> booking_update_policy owner_session (sample_db_with [sample_row]) sample_row
   \<and> ''approved'' \<noteq> b_status sample_row
   \<and> booking_notifications
        ((sample_db_with [sample_row\<lparr>b_status := ''approved''\<rparr>])
               \<lparr>booking_notifications :=
                  [\<lparr>n_booking_id = b_id sample_row, n_user_id = sample_customer,
                    n_notification_type = ''status_update'', n_title = ''Booking approved'',
                    n_message = ''Your booking for 2025-09-26 has been approved'',
                    n_is_read = False\<rparr>]\<rparr>)
      = booking_notifications (sample_db_with [sample_row]) @
          [\<lparr>n_booking_id = b_id sample_row, n_user_id = b_customer_id sample_row,
            n_notification_type = ''status_update'', n_title = ''Booking '' @ ''approved'',
            n_message = ''Your booking for '' @ b_booking_date sample_row @ '' has been ''
                          @ ''approved'',
            n_is_read = False\<rparr>]"
proof -
  let ?db = "sample_db_with [sample_row]"
  let ?db' = "(sample_db_with [sample_row\<lparr>b_status := ''approved''\<rparr>])
               \<lparr>booking_notifications :=
                  [\<lparr>n_booking_id = b_id sample_row, n_user_id = sample_customer,
                    n_notification_type = ''status_update'', n_title = ''Booking approved'',
                    n_message = ''Your booking for 2025-09-26 has been approved'',
                    n_is_read = False\<rparr>]\<rparr>"
  have pk: "distinct (map b_id (bookings ?db))"
    by (simp add: sample_defs)
  have r: "sample_row \<in> set (bookings ?db)"
    by (simp add: sample_defs)
  have ok: "update_booking_status owner_session (b_id sample_row) (Some ''approved'') ?db
              = Inr ?db'"
    by (simp add: update_defs sample_defs)
  have pol: "booking_update_policy owner_session ?db sample_row"
    by (simp add: update_defs sample_defs)
  have ne: "''approved'' \<noteq> b_status sample_row"
    by (simp add: sample_defs)
  from status_change_notifies_customer_once [OF pk r ok] pol ne pk r ok
  show ?thesis by simp
qed

text \<open>
  \<^bold>\<open>C5\<close>, as the schema has it. There is no table of transitions: a status update that
  reaches a stored booking (the session passes one of the UPDATE policies: the
  customer, the facility's owner, the service role) is accepted from every current
  status to each of the five statuses of the CHECK constraint, and is rejected, with a
  check violation and the booking unchanged, exactly for a status outside that list.
  The customer is assumed to be a row of \<open>users\<close>, as the foreign key of
  \<open>bookings\<close> demands.
\<close>

theorem status_update_checks_only_the_status_list:
  assumes pk: "distinct (map b_id (bookings db))"
    and r: "r \<in> set (bookings db)"
    and policy: "booking_update_policy sess db r"
    and fk: "b_customer_id r \<in> set (users db)"
  shows "(s \<in> set booking_statuses \<longrightarrow>
            (\<exists>db'. update_booking_status sess (b_id r) (Some s) db = Inr db'
               \<and> bookings db' =
                   map (\<lambda>x. if b_id x = b_id r then x\<lparr>b_status := s\<rparr> else x) (bookings db)))
       \<and> (s \<notin> set booking_statuses \<longrightarrow>
            update_booking_status sess (b_id r) (Some s) db = Inl CheckViolation)"
proof -
  let ?db1 = "db\<lparr>bookings := map (\<lambda>x. if b_id x = b_id r then x\<lparr>b_status := s\<rparr> else x)
                                   (bookings db)\<rparr>"
  have "b_id r \<in> b_id ` set (bookings db)"
    using r by (rule imageI)
  then have id_in: "b_id (r\<lparr>b_status := s\<rparr>) \<in> set (map b_id (bookings ?db1))"
    by (auto simp: image_iff)
  have user_in: "b_customer_id (r\<lparr>b_status := s\<rparr>) \<in> set (users ?db1)"
    using fk by simp
  show ?thesis
    unfolding update_booking_status_row [OF pk r]
    using policy notify_customer_on_status_change_eq [OF id_in user_in, of r]
    by auto
qed

theorem status_update_checks_only_the_status_list_witness:
  "distinct (map b_id (bookings (sample_db_with [sample_row\<lparr>b_status := ''denied''\<rparr>])))
   \<and> booking_update_policy owner_session
        (sample_db_with [sample_row\<lparr>b_status := ''denied''\<rparr>])
        (sample_row\<lparr>b_status := ''denied''\<rparr>)
   \<and> ''approved'' \<in> set booking_statuses
   \<and> ''confirmed'' \<notin> set booking_statuses
   \<and> (\<exists>db'. update_booking_status owner_session (b_id sample_row) (Some ''approved'')
               (sample_db_with [sample_row\<lparr>b_status := ''denied''\<rparr>]) = Inr db'
            \<and> bookings db' = [sample_row\<lparr>b_status := ''approved''\<rparr>])
   \<and> update_booking_status owner_session (b_id sample_row) (Some ''confirmed'')
        (sample_db_with [sample_row\<lparr>b_status := ''denied''\<rparr>]) = Inl CheckViolation"
proof -
  let ?r = "sample_row\<lparr>b_status := ''denied''\<rparr>"
  let ?db = "sample_db_with [?r]"
  have pk: "distinct (map b_id (bookings ?db))"
    by (simp add: sample_defs)
  have r: "?r \<in> set (bookings ?db)"
    by (simp add: sample_defs)
  have policy: "booking_update_policy owner_session ?db ?r"
    by (simp add: update_defs sample_defs)
  have fk: "b_customer_id ?r \<in> set (users ?db)"
    by (simp add: sample_defs)
  have s1: "''approved'' \<in> set booking_statuses" and s2: "''confirmed'' \<notin> set booking_statuses"
    by (simp_all add: booking_statuses_def)
  from status_update_checks_only_the_status_list [OF pk r policy fk, of "''approved''"]
       status_update_checks_only_the_status_list [OF pk r policy fk, of "''confirmed''"]
       pk policy s1 s2
  show ?thesis by (simp add: sample_defs)
qed

text \<open>
  The claim as stated fails: the facility's owner sets a denied booking to approved,
  the update succeeds, the booking is approved and the customer is notified.
\<close>

theorem denied_to_approved_counterexample:
  "update_booking_status owner_session ''20000000-0000-0000-0000-000000000001''
       (Some ''approved'') (sample_db_with [sample_row\<lparr>b_status := ''denied''\<rparr>])
     = Inr ((sample_db_with [sample_row\<lparr>b_status := ''approved''\<rparr>])
              \<lparr>booking_notifications :=
                 [\<lparr>n_booking_id = ''20000000-0000-0000-0000-000000000001'',
                   n_user_id = sample_customer,
                   n_notification_type = ''status_update'', n_title = ''Booking approved'',
                   n_message = ''Your booking for 2025-09-26 has been approved'',
                   n_is_read = False\<rparr>]\<rparr>)"
  by (simp add: update_defs sample_defs)

section \<open>Creating a booking\<close>

lemma notify_owner_on_booking_Inr:
  assumes "notify_owner_on_booking sess NEW db = Inr db'"
  shows "\<exists>f u. find (\<lambda>f. f_id f = b_facility_id NEW)
                  (filter (facility_select_policy sess) (facilities db)) = Some f
           \<and> f \<in> set (facilities db) \<and> f_id f = b_facility_id NEW
           \<and> uuid_in (f_owner_id f) = Inr u \<and> u \<in> set (users db)
           \<and> db' = db\<lparr>booking_notifications := booking_notifications db @
                [\<lparr>n_booking_id = b_id NEW, n_user_id = u,
                  n_notification_type = ''new_booking'', n_title = ''New Booking Request'',
                  n_message = ''You have a new booking request for '' @ b_booking_date NEW
                      @ '' from '' @ time_out (b_start_time NEW)
                      @ '' to '' @ time_out (b_end_time NEW),
                  n_is_read = False\<rparr>]\<rparr>"
proof (cases "find (\<lambda>f. f_id f = b_facility_id NEW)
                (filter (facility_select_policy sess) (facilities db))")
  case None
  with assms show ?thesis
    by (simp add: notify_owner_on_booking_def)
next
  case (Some f)
  then have f: "f \<in> set (facilities db)" "f_id f = b_facility_id NEW"
    by (auto simp: find_Some_iff dest: nth_mem)
  show ?thesis
  proof (cases "uuid_in (f_owner_id f)")
    case (Inl e)
    with assms Some show ?thesis
      by (simp add: notify_owner_on_booking_def)
  next
    case (Inr u)
    with assms Some have made:
      "create_booking_notification (Some (b_id NEW)) (Some u) (Some ''new_booking'')
         (Some ''New Booking Request'')
         (Some (''You have a new booking request for '' @ b_booking_date NEW
                @ '' from '' @ time_out (b_start_time NEW)
                @ '' to '' @ time_out (b_end_time NEW))) db = Inr db'"
      by (simp add: notify_owner_on_booking_def)
    then have "u \<in> set (users db)"
      by (simp split: if_splits)
    with create_booking_notification_Inr [OF made] Some f Inr show ?thesis
      by auto
  qed
qed

text \<open>
  When an INSERT succeeds, and what it leaves behind. Nothing here reads the dates,
  times or statuses of the stored bookings.
\<close>

lemma insert_booking_Inr_iff:
  "insert_booking sess v db = Inr db' \<longleftrightarrow>
     (\<exists>hours amount f u.
          to_decimal 4 2 (i_total_hours v) = Inr hours
        \<and> to_decimal 10 2 (i_total_amount v) = Inr amount
        \<and> (bypass_rls sess \<or> auth_uid sess = Some (i_customer_id v) \<or> service_role sess)
        \<and> (case i_status v of None \<Rightarrow> ''pending'' | Some s \<Rightarrow> s) \<in> set booking_statuses
        \<and> (case i_payment_status v of None \<Rightarrow> ''pending'' | Some s \<Rightarrow> s)
            \<in> set payment_statuses
        \<and> i_id v \<notin> set (map b_id (bookings db))
        \<and> i_facility_id v \<in> set (map f_id (facilities db))
        \<and> i_customer_id v \<in> set (users db)
        \<and> find (\<lambda>f. f_id f = i_facility_id v)
             (filter (facility_select_policy sess) (facilities db)) = Some f
        \<and> uuid_in (f_owner_id f) = Inr u \<and> u \<in> set (users db)
        \<and> db' = db\<lparr>bookings := bookings db @ [new_row v hours amount],
                    booking_notifications := booking_notifications db @
                [\<lparr>n_booking_id = i_id v, n_user_id = u,
                  n_notification_type = ''new_booking'', n_title = ''New Booking Request'',
                  n_message = ''You have a new booking request for '' @ i_booking_date v
                      @ '' from '' @ time_out (i_start_time v)
                      @ '' to '' @ time_out (i_end_time v),
                  n_is_read = False\<rparr>]\<rparr>)"
  (is "?lhs \<longleftrightarrow> ?rhs")
proof
  assume ok: ?lhs
  from ok obtain hours where h: "to_decimal 4 2 (i_total_hours v) = Inr hours"
    by (cases "to_decimal 4 2 (i_total_hours v)") (simp_all add: insert_booking_def)
  from ok h obtain amount where a: "to_decimal 10 2 (i_total_amount v) = Inr amount"
    by (cases "to_decimal 10 2 (i_total_amount v)") (simp_all add: insert_booking_def)
  let ?NEW = "new_row v hours amount"
  from ok h a have checks:
      "booking_insert_policy sess ?NEW" "b_status ?NEW \<in> set booking_statuses"
      "b_payment_status ?NEW \<in> set payment_statuses"
      "b_id ?NEW \<notin> set (map b_id (bookings db))"
      "b_facility_id ?NEW \<in> set (map f_id (facilities db))"
      "b_customer_id ?NEW \<in> set (users db)"
    and trig: "notify_owner_on_booking sess ?NEW (db\<lparr>bookings := bookings db @ [?NEW]\<rparr>) = Inr db'"
    by (simp_all add: insert_booking_def Let_def split: if_splits)
  from notify_owner_on_booking_Inr [OF trig] checks h a show ?rhs
    by (auto simp: new_row_def booking_insert_policy_def)
next
  assume ?rhs
  then obtain hours amount f u where
      h: "to_decimal 4 2 (i_total_hours v) = Inr hours"
    and a: "to_decimal 10 2 (i_total_amount v) = Inr amount"
    and checks: "bypass_rls sess \<or> auth_uid sess = Some (i_customer_id v) \<or> service_role sess"
      "(case i_status v of None \<Rightarrow> ''pending'' | Some s \<Rightarrow> s) \<in> set booking_statuses"
      "(case i_payment_status v of None \<Rightarrow> ''pending'' | Some s \<Rightarrow> s) \<in> set payment_statuses"
      "i_id v \<notin> set (map b_id (bookings db))"
      "i_facility_id v \<in> set (map f_id (facilities db))"
      "i_customer_id v \<in> set (users db)"
    and f: "find (\<lambda>f. f_id f = i_facility_id v)
             (filter (facility_select_policy sess) (facilities db)) = Some f"
    and u: "uuid_in (f_owner_id f) = Inr u" "u \<in> set (users db)"
    and db': "db' = db\<lparr>bookings := bookings db @ [new_row v hours amount],
                    booking_notifications := booking_notifications db @
                [\<lparr>n_booking_id = i_id v, n_user_id = u,
                  n_notification_type = ''new_booking'', n_title = ''New Booking Request'',
                  n_message = ''You have a new booking request for '' @ i_booking_date v
                      @ '' from '' @ time_out (i_start_time v)
                      @ '' to '' @ time_out (i_end_time v),
                  n_is_read = False\<rparr>]\<rparr>"
    by blast
  have trig: "notify_owner_on_booking sess (new_row v hours amount)
                (db\<lparr>bookings := bookings db @ [new_row v hours amount]\<rparr>) = Inr db'"
    using f u db'
    by (simp add: notify_owner_on_booking_def new_row_def notification_types_def)
  from h a checks trig show ?lhs
    by (simp add: insert_booking_def Let_def booking_insert_policy_def new_row_def)
qed


lemma insert_booking_bookings:
  assumes "insert_booking sess v db = Inr db'"
  shows "\<exists>hours amount.
           to_decimal 4 2 (i_total_hours v) = Inr hours
         \<and> to_decimal 10 2 (i_total_amount v) = Inr amount
         \<and> i_id v \<notin> set (map b_id (bookings db))
         \<and> bookings db' = bookings db @ [new_row v hours amount]"
  using assms unfolding insert_booking_Inr_iff by auto

lemmas insert_defs =
  insert_booking_def new_row_def notify_owner_on_booking_def
  round_half_away_def floor_rat_numeral booking_insert_policy_def facility_select_policy_def
  service_role_def booking_statuses_def payment_statuses_def notification_types_def
  uuid_in_def uuid_out_def hyphen_may_follow_def is_hex_def to_lower_def time_out_def
  two_digits_def digit_char_def hhmm_def
  overlapping_booking_def overlapping_row_def owner_notification_def


lemma insert_overlapping_booking_elsewhere:
  "insert_booking customer_session overlapping_booking elsewhere_db
     = Inr (elsewhere_db
              \<lparr>bookings := bookings elsewhere_db @ [overlapping_row],
               booking_notifications :=
                 [owner_notification ''20000000-0000-0000-0000-000000000002''
                    ''You have a new booking request for 2025-09-26 from 09:30:00 to 10:30:00'']\<rparr>)"
  by (simp add: insert_defs sample_defs elsewhere_db_def)

section \<open>The handler of \<open>POST /api/bookings\<close>\<close>

lemma not_truthy_iff: "\<not> truthy v \<longleftrightarrow> v \<in> falsy_values"
  by (cases v rule: truthy.cases) auto

lemma get_prop_falsy_body: "\<not> truthy body \<Longrightarrow> get_prop body k = Undefined"
  by (cases body) simp_all

lemma get_prop_body:
  "get_prop (if truthy body then body else JObj []) k = get_prop body k"
  by (simp add: get_prop_falsy_body)

text \<open>The handler's two outcomes.\<close>

lemma post_bookings_cases:
  "post_bookings now bs body =
     (if \<not> truthy (get_prop body ''userId'') \<or> \<not> truthy (get_prop body ''facilityId'')
         \<or> \<not> truthy (get_prop body ''courtId'') \<or> \<not> truthy (get_prop body ''date'')
         \<or> \<not> truthy (get_prop (get_prop body ''timeSlot'') ''start'')
         \<or> \<not> truthy (get_prop (get_prop body ''timeSlot'') ''end'')
      then (bs, \<lparr>status_code = 400,
                 json = JObj [(''message'', JStr ''Missing required fields'')]\<rparr>)
      else (bs @ [built_booking now (length bs) body],
            \<lparr>status_code = 201, json = json_of (built_booking now (length bs) body)\<rparr>))"
  unfolding post_bookings_def Let_def get_prop_body built_booking_def by simp

lemma built_booking_props:
  "get_prop (built_booking now n body) ''id'' = JStr (string_of_nat (n + 1))"
  "get_prop (built_booking now n body) ''userId'' = get_prop body ''userId''"
  "get_prop (built_booking now n body) ''facilityId'' = get_prop body ''facilityId''"
  "get_prop (built_booking now n body) ''courtId'' = get_prop body ''courtId''"
  "get_prop (built_booking now n body) ''date'' = get_prop body ''date''"
  "get_prop (built_booking now n body) ''timeSlot'' = get_prop body ''timeSlot''"
  "get_prop (built_booking now n body) ''status'' = JStr ''confirmed''"
  "get_prop (built_booking now n body) ''totalPrice''
     = (if get_prop body ''totalPrice'' \<in> {Undefined, Null} then JNum (Finite 0)
        else get_prop body ''totalPrice'')"
  "get_prop (built_booking now n body) ''paymentStatus'' = JStr ''pending''"
  "get_prop (built_booking now n body) ''totalHours'' = Undefined"
  by (simp_all add: built_booking_def nullish_coalesce_def)

lemmas js_defs =
  post_bookings_cases built_booking_def nullish_coalesce_def string_of_nat.simps digit_char_def
  stored_booking_def sample_request_def created_booking_def empty_user_request_def
  infinite_price_request_def

lemma post_sample_request:
  "post_bookings ''2025-09-25T10:00:00.000Z'' [stored_booking] sample_request
     = ([stored_booking, created_booking], \<lparr>status_code = 201, json = created_booking\<rparr>)"
  by (simp add: js_defs)

text \<open>A price of \<open>Infinity\<close> is stored as it is and answered as \<open>null\<close>.\<close>

lemma post_infinite_price_request:
  "post_bookings ''2025-09-25T10:00:00.000Z'' [stored_booking] infinite_price_request
     = ([stored_booking, built_booking ''2025-09-25T10:00:00.000Z'' 1 infinite_price_request],
        \<lparr>status_code = 201,
         json = json_of (built_booking ''2025-09-25T10:00:00.000Z'' 1 infinite_price_request)\<rparr>)
   \<and> get_prop (built_booking ''2025-09-25T10:00:00.000Z'' 1 infinite_price_request) ''totalPrice''
       = JNum PosInfinity
   \<and> get_prop (json_of (built_booking ''2025-09-25T10:00:00.000Z'' 1 infinite_price_request))
         ''totalPrice'' = Null"
  by (simp add: js_defs)

section \<open>Creating a booking over a conflict\<close>




section \<open>The fields of a created booking\<close>

lemma insert_approved_booking:
  "insert_booking migration_session approved_booking sample_db
     = Inr ((sample_db_with
               [sample_row\<lparr>b_total_hours := Numeric 2, b_status := ''approved'',
                            b_payment_status := ''paid''\<rparr>])
              \<lparr>booking_notifications :=
                 [owner_notification ''20000000-0000-0000-0000-000000000001''
                    ''You have a new booking request for 2025-09-26 from 09:00:00 to 10:00:00'']\<rparr>)"
  by (simp add: insert_defs sample_defs approved_booking_def)

text \<open>
  \<^bold>\<open>C4\<close>, as the code has it. A row inserted into \<open>bookings\<close> has status and payment
  status \<open>pending\<close> when the INSERT leaves them out, and otherwise the values it gives;
  its \<open>total_hours\<close> is the value given, coerced to DECIMAL(4,2): the duration is not
  computed from the times. A booking appended by \<open>POST /api/bookings\<close> has status
  \<open>confirmed\<close>, payment status \<open>pending\<close> and no \<open>totalHours\<close>.
\<close>

theorem created_booking_fields:
  "(insert_booking sess v db = Inr db' \<longrightarrow>
      (\<exists>r. bookings db' = bookings db @ [r]
         \<and> b_status r = (case i_status v of None \<Rightarrow> ''pending'' | Some s \<Rightarrow> s)
         \<and> b_payment_status r = (case i_payment_status v of None \<Rightarrow> ''pending'' | Some s \<Rightarrow> s)
         \<and> to_decimal 4 2 (i_total_hours v) = Inr (b_total_hours r)))
   \<and> (status_code (snd (post_bookings now bs body)) = 201 \<longrightarrow>
        (\<exists>b. fst (post_bookings now bs body) = bs @ [b]
           \<and> get_prop b ''status'' = JStr ''confirmed''
           \<and> get_prop b ''paymentStatus'' = JStr ''pending''
           \<and> get_prop b ''totalHours'' = Undefined))"
proof (intro conjI impI)
  assume "insert_booking sess v db = Inr db'"
  from insert_booking_bookings [OF this] obtain hours amount where
    "to_decimal 4 2 (i_total_hours v) = Inr hours"
    "bookings db' = bookings db @ [new_row v hours amount]"
    by blast
  then show "\<exists>r. bookings db' = bookings db @ [r]
         \<and> b_status r = (case i_status v of None \<Rightarrow> ''pending'' | Some s \<Rightarrow> s)
         \<and> b_payment_status r = (case i_payment_status v of None \<Rightarrow> ''pending'' | Some s \<Rightarrow> s)
         \<and> to_decimal 4 2 (i_total_hours v) = Inr (b_total_hours r)"
    by (intro exI [of _ "new_row v hours amount"]) (simp add: new_row_def)
next
  assume ok: "status_code (snd (post_bookings now bs body)) = 201"
  then have "fst (post_bookings now bs body) = bs @ [built_booking now (length bs) body]"
    unfolding post_bookings_cases by (simp split: if_splits)
  then show "\<exists>b. fst (post_bookings now bs body) = bs @ [b]
           \<and> get_prop b ''status'' = JStr ''confirmed''
           \<and> get_prop b ''paymentStatus'' = JStr ''pending''
           \<and> get_prop b ''totalHours'' = Undefined"
    by (intro exI [of _ "built_booking now (length bs) body"]) (simp add: built_booking_props)
qed

theorem created_booking_fields_witness:
  "insert_booking migration_session approved_booking sample_db
     = Inr ((sample_db_with
               [sample_row\<lparr>b_total_hours := Numeric 2, b_status := ''approved'',
                            b_payment_status := ''paid''\<rparr>])
              \<lparr>booking_notifications :=
                 [owner_notification ''20000000-0000-0000-0000-000000000001''
                    ''You have a new booking request for 2025-09-26 from 09:00:00 to 10:00:00'']\<rparr>)
   \<and> (\<exists>r. [sample_row\<lparr>b_total_hours := Numeric 2, b_status := ''approved'',
                         b_payment_status := ''paid''\<rparr>] = [r]
         \<and> b_status r = ''approved'' \<and> b_payment_status r = ''paid''
         \<and> to_decimal 4 2 (Numeric 2) = Inr (b_total_hours r))
   \<and> status_code (snd (post_bookings ''2025-09-25T10:00:00.000Z'' [stored_booking]
                          sample_request)) = 201
   \<and> (\<exists>b. fst (post_bookings ''2025-09-25T10:00:00.000Z'' [stored_booking] sample_request)
             = [stored_booking] @ [b]
          \<and> get_prop b ''status'' = JStr ''confirmed'')"
proof -
  have created: "status_code (snd (post_bookings ''2025-09-25T10:00:00.000Z''
                    [stored_booking] sample_request)) = 201"
    by (simp add: post_sample_request)
  note inst = created_booking_fields
         [of migration_session approved_booking sample_db
             "(sample_db_with
               [sample_row\<lparr>b_total_hours := Numeric 2, b_status := ''approved'',
                            b_payment_status := ''paid''\<rparr>])
              \<lparr>booking_notifications :=
                 [owner_notification ''20000000-0000-0000-0000-000000000001''
                    ''You have a new booking request for 2025-09-26 from 09:00:00 to 10:00:00'']\<rparr>"
             "''2025-09-25T10:00:00.000Z''" "[stored_booking]" sample_request]
  from inst insert_approved_booking have
    "\<exists>r. bookings ((sample_db_with
               [sample_row\<lparr>b_total_hours := Numeric 2, b_status := ''approved'',
                            b_payment_status := ''paid''\<rparr>])
              \<lparr>booking_notifications :=
                 [owner_notification ''20000000-0000-0000-0000-000000000001''
                    ''You have a new booking request for 2025-09-26 from 09:00:00 to 10:00:00'']\<rparr>)
           = bookings sample_db @ [r]
         \<and> b_status r = (case i_status approved_booking of None \<Rightarrow> ''pending'' | Some s \<Rightarrow> s)
         \<and> b_payment_status r
             = (case i_payment_status approved_booking of None \<Rightarrow> ''pending'' | Some s \<Rightarrow> s)
         \<and> to_decimal 4 2 (i_total_hours approved_booking) = Inr (b_total_hours r)"
    by blast
  then have row: "\<exists>r. [sample_row\<lparr>b_total_hours := Numeric 2, b_status := ''approved'',
                         b_payment_status := ''paid''\<rparr>] = [r]
         \<and> b_status r = ''approved'' \<and> b_payment_status r = ''paid''
         \<and> to_decimal 4 2 (Numeric 2) = Inr (b_total_hours r)"
    by (simp add: sample_db_with_def sample_db_def approved_booking_def)
  from inst created have
    "\<exists>b. fst (post_bookings ''2025-09-25T10:00:00.000Z'' [stored_booking] sample_request)
             = [stored_booking] @ [b]
          \<and> get_prop b ''status'' = JStr ''confirmed''"
    by blast
  with insert_approved_booking row created show ?thesis
    by blast
qed

text \<open>
  The claim as stated fails on both paths. The INSERT of a booking from 09:00 to 10:00
  given as approved, paid and two hours long succeeds and stores just that, while the
  duration of the interval is one hour; the booking the handler appends is \<open>confirmed\<close>.
\<close>

theorem created_booking_not_pending_counterexample:
  "insert_booking migration_session approved_booking sample_db
     = Inr ((sample_db_with
               [sample_row\<lparr>b_total_hours := Numeric 2, b_status := ''approved'',
                            b_payment_status := ''paid''\<rparr>])
              \<lparr>booking_notifications :=
                 [owner_notification ''20000000-0000-0000-0000-000000000001''
                    ''You have a new booking request for 2025-09-26 from 09:00:00 to 10:00:00'']\<rparr>)
   \<and> calculate_booking_duration (Some (i_start_time approved_booking))
         (Some (i_end_time approved_booking)) = Some 1
   \<and> post_bookings ''2025-09-25T10:00:00.000Z'' [stored_booking] sample_request
       = ([stored_booking, created_booking], \<lparr>status_code = 201, json = created_booking\<rparr>)
   \<and> get_prop created_booking ''status'' = JStr ''confirmed''
   \<and> get_prop created_booking ''totalHours'' = Undefined"
proof (intro conjI)
  show "calculate_booking_duration (Some (i_start_time approved_booking))
         (Some (i_end_time approved_booking)) = Some 1"
    using duration_of_one_hour by (simp add: approved_booking_def sample_booking_def)
  show "get_prop created_booking ''status'' = JStr ''confirmed''"
    by (simp add: created_booking_def)
  show "get_prop created_booking ''totalHours'' = Undefined"
    by (simp add: created_booking_def)
qed (rule insert_approved_booking, rule post_sample_request)

section \<open>The answers of \<open>POST /api/bookings\<close>\<close>

lemma absent_reads_undefined: "\<not> present body k \<Longrightarrow> get_prop body k = Undefined"
proof (cases body)
  case (JObj kvs)
  assume "\<not> present body k"
  with JObj have "map_of (rev kvs) k = None"
    by (simp add: map_of_eq_None_iff)
  with JObj show ?thesis by simp
qed simp_all

text \<open>
  \<^bold>\<open>C10\<close>, as the code has it. The handler answers 400 with \<open>Missing required fields\<close> and
  leaves the array unchanged exactly when one of \<open>userId\<close>, \<open>facilityId\<close>, \<open>courtId\<close>,
  \<open>date\<close>, \<open>timeSlot.start\<close>, \<open>timeSlot.end\<close> is falsy: \<open>undefined\<close> (so in particular
  absent), \<open>null\<close>, \<open>false\<close>, zero or the empty string. Otherwise it appends exactly one
  booking, which carries the body's values and \<open>totalPrice\<close> 0 when the body's is absent
  or \<open>null\<close>, and answers 201 with that booking as JSON.
\<close>

theorem post_bookings_answers:
  "((\<exists>v \<in> set (required_fields body). v \<in> falsy_values)
      \<longrightarrow> post_bookings now bs body
           = (bs, \<lparr>status_code = 400,
                    json = JObj [(''message'', JStr ''Missing required fields'')]\<rparr>))
   \<and> (some_field_absent body \<longrightarrow> (\<exists>v \<in> set (required_fields body). v \<in> falsy_values))
   \<and> (\<not> (\<exists>v \<in> set (required_fields body). v \<in> falsy_values)
      \<longrightarrow> (\<exists>b. post_bookings now bs body
                  = (bs @ [b], \<lparr>status_code = 201, json = json_of b\<rparr>)
            \<and> get_prop b ''id'' = JStr (string_of_nat (length bs + 1))
            \<and> get_prop b ''userId'' = get_prop body ''userId''
            \<and> get_prop b ''facilityId'' = get_prop body ''facilityId''
            \<and> get_prop b ''courtId'' = get_prop body ''courtId''
            \<and> get_prop b ''date'' = get_prop body ''date''
            \<and> get_prop b ''timeSlot'' = get_prop body ''timeSlot''
            \<and> get_prop b ''totalPrice''
                = (if get_prop body ''totalPrice'' \<in> {Undefined, Null} then JNum (Finite 0)
                   else get_prop body ''totalPrice'')))"
proof -
  have guard: "(\<exists>v \<in> set (required_fields body). v \<in> falsy_values)
      \<longleftrightarrow> (\<not> truthy (get_prop body ''userId'') \<or> \<not> truthy (get_prop body ''facilityId'')
         \<or> \<not> truthy (get_prop body ''courtId'') \<or> \<not> truthy (get_prop body ''date'')
         \<or> \<not> truthy (get_prop (get_prop body ''timeSlot'') ''start'')
         \<or> \<not> truthy (get_prop (get_prop body ''timeSlot'') ''end''))"
    unfolding not_truthy_iff required_fields_def by simp
  have absent: "some_field_absent body \<Longrightarrow>
      \<exists>v \<in> set (required_fields body). v \<in> falsy_values"
    unfolding some_field_absent_def required_fields_def
    by (auto dest: absent_reads_undefined)
  have created: "\<not> (\<exists>v \<in> set (required_fields body). v \<in> falsy_values) \<Longrightarrow>
      post_bookings now bs body
        = (bs @ [built_booking now (length bs) body],
           \<lparr>status_code = 201, json = json_of (built_booking now (length bs) body)\<rparr>)"
    unfolding guard by (simp add: post_bookings_cases)
  have rejected: "\<exists>v \<in> set (required_fields body). v \<in> falsy_values \<Longrightarrow>
      post_bookings now bs body
        = (bs, \<lparr>status_code = 400,
                 json = JObj [(''message'', JStr ''Missing required fields'')]\<rparr>)"
    unfolding guard by (simp add: post_bookings_cases)
  show ?thesis
  proof (intro conjI impI)
    assume "\<not> (\<exists>v \<in> set (required_fields body). v \<in> falsy_values)"
    from created [OF this]
    show "\<exists>b. post_bookings now bs body
                  = (bs @ [b], \<lparr>status_code = 201, json = json_of b\<rparr>)
            \<and> get_prop b ''id'' = JStr (string_of_nat (length bs + 1))
            \<and> get_prop b ''userId'' = get_prop body ''userId''
            \<and> get_prop b ''facilityId'' = get_prop body ''facilityId''
            \<and> get_prop b ''courtId'' = get_prop body ''courtId''
            \<and> get_prop b ''date'' = get_prop body ''date''
            \<and> get_prop b ''timeSlot'' = get_prop body ''timeSlot''
            \<and> get_prop b ''totalPrice''
                = (if get_prop body ''totalPrice'' \<in> {Undefined, Null} then JNum (Finite 0)
                   else get_prop body ''totalPrice'')"
      by (intro exI [of _ "built_booking now (length bs) body"])
         (simp only: built_booking_props simp_thms)
  qed (erule rejected, erule absent)
qed

theorem post_bookings_answers_witness:
  "(\<exists>v \<in> set (required_fields empty_user_request). v \<in> falsy_values)
   \<and> post_bookings ''2025-09-25T10:00:00.000Z'' [stored_booking] empty_user_request
       = ([stored_booking],
          \<lparr>status_code = 400, json = JObj [(''message'', JStr ''Missing required fields'')]\<rparr>)
   \<and> some_field_absent (JObj [(''userId'', JStr ''u1'')])
   \<and> (\<exists>v \<in> set (required_fields (JObj [(''userId'', JStr ''u1'')])). v \<in> falsy_values)
   \<and> \<not> (\<exists>v \<in> set (required_fields infinite_price_request). v \<in> falsy_values)
   \<and> (\<exists>b. post_bookings ''2025-09-25T10:00:00.000Z'' [stored_booking] infinite_price_request
             = ([stored_booking] @ [b], \<lparr>status_code = 201, json = json_of b\<rparr>)
          \<and> get_prop b ''totalPrice'' = JNum PosInfinity
          \<and> get_prop (json_of b) ''totalPrice'' = Null)"
proof -
  have falsy: "\<exists>v \<in> set (required_fields empty_user_request). v \<in> falsy_values"
    by (simp add: required_fields_def empty_user_request_def)
  have absent: "some_field_absent (JObj [(''userId'', JStr ''u1'')])"
    by (simp add: some_field_absent_def)
  have truthy: "\<not> (\<exists>v \<in> set (required_fields infinite_price_request). v \<in> falsy_values)"
    by (simp add: required_fields_def infinite_price_request_def)
  from post_bookings_answers [of empty_user_request "''2025-09-25T10:00:00.000Z''"
         "[stored_booking]"] falsy
  have a: "post_bookings ''2025-09-25T10:00:00.000Z'' [stored_booking] empty_user_request
       = ([stored_booking],
          \<lparr>status_code = 400, json = JObj [(''message'', JStr ''Missing required fields'')]\<rparr>)"
    by blast
  from post_bookings_answers [of "JObj [(''userId'', JStr ''u1'')]"] absent
  have b: "\<exists>v \<in> set (required_fields (JObj [(''userId'', JStr ''u1'')])). v \<in> falsy_values"
    by blast
  from post_bookings_answers [of infinite_price_request "''2025-09-25T10:00:00.000Z''"
         "[stored_booking]"] truthy
  have "\<exists>b. post_bookings ''2025-09-25T10:00:00.000Z'' [stored_booking] infinite_price_request
             = ([stored_booking] @ [b], \<lparr>status_code = 201, json = json_of b\<rparr>)"
    by blast
  with post_infinite_price_request
  have c: "\<exists>b. post_bookings ''2025-09-25T10:00:00.000Z'' [stored_booking] infinite_price_request
             = ([stored_booking] @ [b], \<lparr>status_code = 201, json = json_of b\<rparr>)
          \<and> get_prop b ''totalPrice'' = JNum PosInfinity
          \<and> get_prop (json_of b) ''totalPrice'' = Null"
    by (intro exI [of _ "built_booking ''2025-09-25T10:00:00.000Z'' 1 infinite_price_request"])
       simp
  from falsy a absent b truthy c show ?thesis
    by blast
qed

text \<open>
  The claim as stated fails in the direction from 400 to an absent property: every
  one of the six is present in this body, \<open>userId\<close> is the empty string, and the answer
  is 400 with the array unchanged.
\<close>

theorem present_but_empty_counterexample:
  "\<not> some_field_absent empty_user_request
   \<and> post_bookings ''2025-09-25T10:00:00.000Z'' [stored_booking] empty_user_request
       = ([stored_booking],
          \<lparr>status_code = 400, json = JObj [(''message'', JStr ''Missing required fields'')]\<rparr>)"
  by (simp add: some_field_absent_def empty_user_request_def post_bookings_cases)

section \<open>The no-overlap invariant\<close>

lemma no_overlap_iff:
  "no_overlap tbl \<longleftrightarrow>
     (\<forall>a \<in> set tbl. \<forall>b \<in> set tbl.
        b_id a \<noteq> b_id b \<and> b_facility_id a = b_facility_id b
        \<and> b_booking_date a = b_booking_date b \<and> active a \<and> active b
        \<longrightarrow> \<not> (b_start_time a < b_end_time b \<and> b_end_time a > b_start_time b))"
  by (simp add: no_overlap_def list_all_iff)

lemma active_iff: "active r \<longleftrightarrow> b_status r = ''pending'' \<or> b_status r = ''approved''"
  by (simp add: active_def)

text \<open>What a negative answer of the check says about the stored rows.\<close>

lemma no_conflict_iff:
  "\<not> check_booking_conflicts tbl (Some f) (Some d) (Some s) (Some e) x \<longleftrightarrow>
     (\<forall>r \<in> set tbl. b_facility_id r = f \<and> b_booking_date r = d \<and> active r
        \<and> (\<forall>i. x = Some i \<longrightarrow> b_id r \<noteq> i)
        \<longrightarrow> \<not> (b_start_time r < e \<and> b_end_time r > s))"
  unfolding check_booking_conflicts_iff active_iff by blast

lemma insert_keeps_no_overlap:
  assumes inv: "no_overlap (bookings db)"
    and chk: "conflict_checked db (CreateBooking sess v)"
    and ok: "insert_booking sess v db = Inr db'"
  shows "no_overlap (bookings db')"
proof -
  from insert_booking_bookings [OF ok] obtain hours amount where
    fresh: "i_id v \<notin> set (map b_id (bookings db))"
    and tbl: "bookings db' = bookings db @ [new_row v hours amount]"
    by blast
  let ?NEW = "new_row v hours amount"
  have new_fields: "b_id ?NEW = i_id v" "b_facility_id ?NEW = i_facility_id v"
      "b_booking_date ?NEW = i_booking_date v" "b_start_time ?NEW = i_start_time v"
      "b_end_time ?NEW = i_end_time v"
    by (simp_all add: new_row_def)
  have act: "active ?NEW \<Longrightarrow> i_status v \<in> {None, Some ''pending'', Some ''approved''}"
    by (cases "i_status v") (simp_all add: new_row_def active_iff)
  have free: "\<And>r. \<lbrakk>active ?NEW; r \<in> set (bookings db); b_facility_id r = i_facility_id v;
                    b_booking_date r = i_booking_date v; active r\<rbrakk>
      \<Longrightarrow> \<not> (b_start_time r < i_end_time v \<and> b_end_time r > i_start_time v)"
  proof -
    fix r
    assume a: "active ?NEW" and r: "r \<in> set (bookings db)"
      "b_facility_id r = i_facility_id v" "b_booking_date r = i_booking_date v" "active r"
    from chk act [OF a] have
      "\<not> check_booking_conflicts (bookings db) (Some (i_facility_id v))
            (Some (i_booking_date v)) (Some (i_start_time v)) (Some (i_end_time v)) None"
      by auto
    with r show "\<not> (b_start_time r < i_end_time v \<and> b_end_time r > i_start_time v)"
      unfolding no_conflict_iff by blast
  qed
  show ?thesis
    unfolding no_overlap_iff tbl
  proof (intro ballI impI)
    fix a b
    assume a: "a \<in> set (bookings db @ [?NEW])" and b: "b \<in> set (bookings db @ [?NEW])"
      and c: "b_id a \<noteq> b_id b \<and> b_facility_id a = b_facility_id b
        \<and> b_booking_date a = b_booking_date b \<and> active a \<and> active b"
    consider (old) "a \<in> set (bookings db)" "b \<in> set (bookings db)"
      | (new_a) "a = ?NEW" "b \<in> set (bookings db)"
      | (new_b) "a \<in> set (bookings db)" "b = ?NEW"
      | (both) "a = ?NEW" "b = ?NEW"
      using a b by auto
    then show "\<not> (b_start_time a < b_end_time b \<and> b_end_time a > b_start_time b)"
    proof cases
      case old
      with inv c show ?thesis unfolding no_overlap_iff by blast
    next
      case new_a
      with c free [of b] new_fields show ?thesis by auto
    next
      case new_b
      with c free [of a] new_fields show ?thesis by auto
    next
      case both
      with c show ?thesis by simp
    qed
  qed
qed

lemma fire_status_triggers_bookings:
  "fire_status_triggers ps db = Inr db' \<Longrightarrow> bookings db' = bookings db"
proof (induction ps arbitrary: db)
  case Nil
  then show ?case by simp
next
  case (Cons p ps)
  obtain OLD NEW where p: "p = (OLD, NEW)" by (cases p)
  from Cons.prems p obtain db1 where
    one: "notify_customer_on_status_change OLD NEW db = Inr db1"
    and rest: "fire_status_triggers ps db1 = Inr db'"
    by (cases "notify_customer_on_status_change OLD NEW db") simp_all
  from notify_customer_on_status_change_Inr [OF one] have "bookings db1 = bookings db"
    by (simp split: if_splits)
  with Cons.IH [OF rest] show ?case by simp
qed

lemma update_booking_status_bookings:
  assumes "update_booking_status sess booking_id new_status db = Inr db'"
  shows "bookings db' = bookings db
       \<or> (\<exists>s. new_status = Some s
            \<and> bookings db' =
                map (\<lambda>r. if b_id r = booking_id \<and> booking_update_policy sess db r
                         then r\<lparr>b_status := s\<rparr> else r) (bookings db))"
proof (cases "filter (\<lambda>r. b_id r = booking_id \<and> booking_update_policy sess db r)
                (bookings db) = []")
  case True
  with assms show ?thesis by (simp add: update_booking_status_def)
next
  case False
  with assms obtain s where s: "new_status = Some s"
    by (cases new_status) (simp_all add: update_booking_status_def)
  with assms False have
    "fire_status_triggers
       (map (\<lambda>r. (r, r\<lparr>b_status := s\<rparr>))
          (filter (\<lambda>r. b_id r = booking_id \<and> booking_update_policy sess db r) (bookings db)))
       (db\<lparr>bookings := map (\<lambda>r. if b_id r = booking_id \<and> booking_update_policy sess db r
                               then r\<lparr>b_status := s\<rparr> else r) (bookings db)\<rparr>) = Inr db'"
    by (simp add: update_booking_status_def split: if_splits)
  from fire_status_triggers_bookings [OF this] s show ?thesis by simp
qed

lemma update_keeps_no_overlap:
  assumes inv: "no_overlap (bookings db)"
    and chk: "conflict_checked db (SetBookingStatus sess booking_id new_status)"
    and ok: "update_booking_status sess booking_id new_status db = Inr db'"
  shows "no_overlap (bookings db')"
proof -
  from update_booking_status_bookings [OF ok]
  consider (same) "bookings db' = bookings db"
    | (upd) s where "new_status = Some s"
        "bookings db' = map (\<lambda>r. if b_id r = booking_id \<and> booking_update_policy sess db r
                                 then r\<lparr>b_status := s\<rparr> else r) (bookings db)"
    by blast
  then show ?thesis
  proof cases
    case same
    with inv show ?thesis by simp
  next
    case upd
    let ?u = "\<lambda>r. if b_id r = booking_id \<and> booking_update_policy sess db r
                   then r\<lparr>b_status := s\<rparr> else r"
    have same_fields: "\<And>r. b_id (?u r) = b_id r \<and> b_facility_id (?u r) = b_facility_id r
        \<and> b_booking_date (?u r) = b_booking_date r \<and> b_start_time (?u r) = b_start_time r
        \<and> b_end_time (?u r) = b_end_time r"
      by simp
    have other: "\<And>r. b_id r \<noteq> booking_id \<Longrightarrow> ?u r = r"
      by simp
    have became_active: "\<And>r. \<lbrakk>b_id r = booking_id; active (?u r); \<not> active r\<rbrakk>
        \<Longrightarrow> new_status \<in> {Some ''pending'', Some ''approved''}"
      using upd(1) by (auto simp: active_iff split: if_splits)
    have free: "\<And>a b. \<lbrakk>a \<in> set (bookings db); b \<in> set (bookings db); b_id a = booking_id;
                      b_id b \<noteq> booking_id; active (?u a); \<not> active a; active b;
                      b_facility_id a = b_facility_id b; b_booking_date a = b_booking_date b\<rbrakk>
        \<Longrightarrow> \<not> (b_start_time b < b_end_time a \<and> b_end_time b > b_start_time a)"
    proof -
      fix a b
      assume a: "a \<in> set (bookings db)" "b_id a = booking_id" "active (?u a)" "\<not> active a"
        and b: "b \<in> set (bookings db)" "b_id b \<noteq> booking_id" "active b"
          "b_facility_id a = b_facility_id b" "b_booking_date a = b_booking_date b"
      from became_active [OF a(2,3,4)] chk a(1,2,4) have
        "\<not> check_booking_conflicts (bookings db) (Some (b_facility_id a))
              (Some (b_booking_date a)) (Some (b_start_time a)) (Some (b_end_time a))
              (Some booking_id)"
        by (auto simp: list_all_iff)
      with b show "\<not> (b_start_time b < b_end_time a \<and> b_end_time b > b_start_time a)"
        unfolding no_conflict_iff by auto
    qed
    show ?thesis
      unfolding no_overlap_iff upd(2)
    proof (intro ballI impI)
      fix a' b'
      assume "a' \<in> set (map ?u (bookings db))" and "b' \<in> set (map ?u (bookings db))"
        and c: "b_id a' \<noteq> b_id b' \<and> b_facility_id a' = b_facility_id b'
          \<and> b_booking_date a' = b_booking_date b' \<and> active a' \<and> active b'"
      then obtain a b where a: "a \<in> set (bookings db)" "a' = ?u a"
        and b: "b \<in> set (bookings db)" "b' = ?u b"
        by auto
      from c a(2) b(2) have ids: "b_id a \<noteq> b_id b"
        and fd: "b_facility_id a = b_facility_id b" "b_booking_date a = b_booking_date b"
        and act: "active (?u a)" "active (?u b)"
        using same_fields [of a] same_fields [of b] by auto
      have times: "b_start_time a' = b_start_time a" "b_end_time a' = b_end_time a"
        "b_start_time b' = b_start_time b" "b_end_time b' = b_end_time b"
        using a(2) b(2) same_fields [of a] same_fields [of b] by auto
      have "\<not> (b_start_time a < b_end_time b \<and> b_end_time a > b_start_time b)"
      proof (cases "active a \<and> active b")
        case True
        with inv a(1) b(1) ids fd show ?thesis
          unfolding no_overlap_iff by blast
      next
        case False
        then consider (a_new) "\<not> active a" | (b_new) "active a" "\<not> active b" by blast
        then show ?thesis
        proof cases
          case a_new
          with act(1) have ida: "b_id a = booking_id"
            using other [of a] by (cases "b_id a = booking_id") auto
          with ids have idb: "b_id b \<noteq> booking_id" by simp
          with act(2) other [of b] have "active b" by simp
          from free [OF a(1) b(1) ida idb act(1) a_new this fd] show ?thesis by auto
        next
          case b_new
          with act(2) have idb: "b_id b = booking_id"
            using other [of b] by (cases "b_id b = booking_id") auto
          with ids have ida: "b_id a \<noteq> booking_id" by simp
          from free [OF b(1) a(1) idb ida act(2) b_new(2) b_new(1)] fd show ?thesis by auto
        qed
      qed
      with times show "\<not> (b_start_time a' < b_end_time b' \<and> b_end_time a' > b_start_time b')"
        by simp
    qed
  qed
qed

lemma operation_keeps_no_overlap:
  assumes "no_overlap (bookings db)" and "conflict_checked db x"
    and "apply_operation x db = Inr db'"
  shows "no_overlap (bookings db')"
proof (cases x)
  case (CreateBooking sess v)
  with assms insert_keeps_no_overlap [of db sess v db'] show ?thesis
    by (simp del: conflict_checked.simps)
next
  case (SetBookingStatus sess booking_id new_status)
  with assms update_keeps_no_overlap [of db sess booking_id new_status db'] show ?thesis
    by (simp del: conflict_checked.simps)
qed

text \<open>
  \<^bold>\<open>C1\<close>, as the code can keep it. The schema does not maintain the invariant by itself
  (no INSERT or UPDATE asks \<open>check_booking_conflicts\<close>). It is maintained along every
  sequence of successful inserts and status updates that starts without overlap and in
  which the check is asked first, over all stored bookings (as the service role sees
  them): a pending or approved booking is inserted only when \<open>check_booking_conflicts\<close>
  over all stored bookings is false for its facility, date and interval, and a booking
  that is neither pending nor approved is set to pending or approved only when the
  check over all stored bookings for its own facility, date and interval, with itself
  excluded, is false.
\<close>

theorem checked_operations_keep_no_overlap:
  assumes "no_overlap (bookings db)"
    and "all_conflict_checked ops db"
    and "run ops db = Inr db'"
  shows "no_overlap (bookings db')"
  using assms
proof (induction ops arbitrary: db)
  case Nil
  then show ?case by simp
next
  case (Cons x xs)
  from Cons.prems(3) obtain db1 where
    step: "apply_operation x db = Inr db1" and rest: "run xs db1 = Inr db'"
    by (cases "apply_operation x db") simp_all
  from Cons.prems(2) step have chk: "conflict_checked db x" "all_conflict_checked xs db1"
    by simp_all
  from operation_keeps_no_overlap [OF Cons.prems(1) chk(1) step]
  have "no_overlap (bookings db1)" .
  from Cons.IH [OF this chk(2) rest] show ?case .
qed

lemmas run_defs =
  unchecked_run_def unchecked_result_def checked_run_def checked_state_1_def
  checked_state_2_def checked_state_3_def checked_result_def
  touching_booking_def touching_row_def customer_notification_def

lemma insert_sample_booking:
  "insert_booking customer_session sample_booking sample_db = Inr checked_state_1"
  by (simp add: insert_defs sample_defs run_defs)

lemma insert_overlapping_after_sample:
  "insert_booking customer_session overlapping_booking checked_state_1 = Inr unchecked_result"
  by (simp add: insert_defs sample_defs run_defs)

lemma deny_sample_booking:
  "update_booking_status owner_session ''20000000-0000-0000-0000-000000000001''
       (Some ''denied'') checked_state_1 = Inr checked_state_2"
  by (simp add: update_defs sample_defs run_defs owner_notification_def)

lemma insert_touching_after_denial:
  "insert_booking customer_session touching_booking checked_state_2 = Inr checked_state_3"
  by (simp add: insert_defs sample_defs run_defs)

lemma approve_denied_booking:
  "update_booking_status owner_session ''20000000-0000-0000-0000-000000000001''
       (Some ''approved'') checked_state_3 = Inr checked_result"
  by (simp add: update_defs sample_defs run_defs owner_notification_def)

lemma checked_run_runs: "run checked_run sample_db = Inr checked_result"
  by (simp add: checked_run_def insert_sample_booking deny_sample_booking
        insert_touching_after_denial approve_denied_booking)

lemma checked_run_is_checked: "all_conflict_checked checked_run sample_db"
proof -
  have c1: "conflict_checked sample_db (CreateBooking customer_session sample_booking)"
    by (simp add: check_booking_conflicts_def sample_defs)
  have c2: "conflict_checked checked_state_1
       (SetBookingStatus owner_session ''20000000-0000-0000-0000-000000000001''
          (Some ''denied''))"
    by simp
  have c3: "conflict_checked checked_state_2 (CreateBooking customer_session touching_booking)"
    by (simp add: check_booking_conflicts_iff sample_defs run_defs)
  have c4: "conflict_checked checked_state_3
       (SetBookingStatus owner_session ''20000000-0000-0000-0000-000000000001''
          (Some ''approved''))"
    by (simp add: check_booking_conflicts_iff sample_defs run_defs active_def hhmm_def)
  show ?thesis
    unfolding checked_run_def
    by (simp del: conflict_checked.simps
          add: c1 c2 c3 c4 insert_sample_booking deny_sample_booking
               insert_touching_after_denial approve_denied_booking)
qed

text \<open>
  In the run of the witness the last step sets a denied booking to approved while a
  pending booking of the same facility and date is stored: the check that allows it
  is asked over a table it could conflict with.
\<close>

theorem checked_operations_keep_no_overlap_witness:
  "no_overlap (bookings sample_db)
   \<and> all_conflict_checked checked_run sample_db
   \<and> run checked_run sample_db = Inr checked_result
   \<and> bookings checked_state_3 = [sample_row\<lparr>b_status := ''denied''\<rparr>, touching_row]
   \<and> \<not> active (sample_row\<lparr>b_status := ''denied''\<rparr>) \<and> active touching_row
   \<and> bookings checked_result = [sample_row\<lparr>b_status := ''approved''\<rparr>, touching_row]
   \<and> no_overlap (bookings checked_result)"
proof -
  have start: "no_overlap (bookings sample_db)"
    by (simp add: no_overlap_def sample_db_def)
  have rows: "bookings checked_state_3 = [sample_row\<lparr>b_status := ''denied''\<rparr>, touching_row]"
      "bookings checked_result = [sample_row\<lparr>b_status := ''approved''\<rparr>, touching_row]"
    by (simp_all add: checked_state_3_def checked_result_def sample_db_with_def)
  have act: "\<not> active (sample_row\<lparr>b_status := ''denied''\<rparr>)" "active touching_row"
    by (simp_all add: active_def touching_row_def sample_row_def)
  from checked_operations_keep_no_overlap [OF start checked_run_is_checked checked_run_runs]
       start checked_run_is_checked checked_run_runs rows act
  show ?thesis by blast
qed

text \<open>
  The claim as stated fails. From the sample database, whose table of bookings is
  empty, the customer's two inserts both succeed, and the table then holds two pending
  bookings of one facility and date, 09:00 to 10:00 and 09:30 to 10:30.
\<close>

theorem overlapping_inserts_counterexample:
  "no_overlap (bookings sample_db)
   \<and> run unchecked_run sample_db = Inr unchecked_result
   \<and> bookings unchecked_result = [sample_row, overlapping_row]
   \<and> \<not> no_overlap (bookings unchecked_result)"
proof (intro conjI)
  show "no_overlap (bookings sample_db)"
    by (simp add: no_overlap_def sample_db_def)
  show "run unchecked_run sample_db = Inr unchecked_result"
    by (simp add: unchecked_run_def insert_sample_booking insert_overlapping_after_sample)
  show "bookings unchecked_result = [sample_row, overlapping_row]"
    by (simp add: unchecked_result_def sample_db_with_def)
  show "\<not> no_overlap (bookings unchecked_result)"
    by (simp add: unchecked_result_def sample_db_with_def no_overlap_def active_def
          sample_row_def overlapping_row_def hhmm_def)
qed

end
